theory Spec2Isabelle
  imports Complex_Main
begin

section \<open>Numbers and vectors\<close>

text \<open>
  JavaScript numbers are modelled as real numbers: infinities and NaN are not represented,
  and neither is rounding, apart from the timers below. Where the source would compute with an \<^verbatim>\<open>undefined\<close> property (which
  gives NaN in JavaScript) the model returns the error value \<open>NotANumber\<close> instead of
  a number; where the source dereferences \<^verbatim>\<open>null\<close> it returns \<open>TypeError\<close>.

  The three timers of the AI are accumulated with \<^verbatim>\<open>+=\<close> frame after frame and compared
  with thresholds, so there the rounding of a sum decides which branch runs: ten frames of
  \<open>0.05\<close> add up to \<open>0.49999999999999994\<close> in double precision, not to
  \<open>0.5\<close>. The functions that accumulate the timers therefore take the addition as a
  parameter \<open>fadd\<close>, which stands for the double-precision addition of the JavaScript
  engine; nothing is assumed of it.

  \<^verbatim>\<open>Math.random()\<close> is an input: every function that draws random numbers takes a
  sequence \<open>rnd\<close>, and \<open>rnd 0\<close>, \<open>rnd 1\<close>, ... are the values of the successive
  calls made during that invocation.
\<close>

datatype error = TypeError | NotANumber

datatype Vector3 = Vector3 (vx: real) (vy: real) (vz: real)

datatype Vector2 = Vector2 (ux: real) (uy: real)

definition add :: "Vector3 \<Rightarrow> Vector3 \<Rightarrow> Vector3" where
  "add a b = Vector3 (vx a + vx b) (vy a + vy b) (vz a + vz b)"

definition sub :: "Vector3 \<Rightarrow> Vector3 \<Rightarrow> Vector3" where
  "sub a b = Vector3 (vx a - vx b) (vy a - vy b) (vz a - vz b)"

definition multiplyScalar :: "Vector3 \<Rightarrow> real \<Rightarrow> Vector3" where
  "multiplyScalar a s = Vector3 (vx a * s) (vy a * s) (vz a * s)"

definition dot :: "Vector3 \<Rightarrow> Vector3 \<Rightarrow> real" where
  "dot a b = vx a * vx b + vy a * vy b + vz a * vz b"

definition cross :: "Vector3 \<Rightarrow> Vector3 \<Rightarrow> Vector3" where
  "cross a b = Vector3 (vy a * vz b - vz a * vy b) (vz a * vx b - vx a * vz b)
                       (vx a * vy b - vy a * vx b)"

definition length_v :: "Vector3 \<Rightarrow> real" where
  "length_v a = sqrt (vx a * vx a + vy a * vy a + vz a * vz a)"

text \<open>three.js: \<^verbatim>\<open>normalize() { return this.divideScalar(this.length() || 1) }\<close>,
  so the zero vector stays the zero vector.\<close>

definition normalize_v :: "Vector3 \<Rightarrow> Vector3" where
  "normalize_v a = (let l = length_v a in multiplyScalar a (1 / (if l = 0 then 1 else l)))"

definition distanceTo :: "Vector3 \<Rightarrow> Vector3 \<Rightarrow> real" where
  "distanceTo a b = length_v (sub a b)"

text \<open>three.js \<^verbatim>\<open>applyAxisAngle(axis, angle)\<close> rotates by \<open>angle\<close> about the unit vector
  \<open>axis\<close> (right-hand rule); written here with Rodrigues' formula.\<close>

definition applyAxisAngle :: "Vector3 \<Rightarrow> Vector3 \<Rightarrow> real \<Rightarrow> Vector3" where
  "applyAxisAngle v axis angle =
     add (add (multiplyScalar v (cos angle)) (multiplyScalar (cross axis v) (sin angle)))
         (multiplyScalar axis (dot axis v * (1 - cos angle)))"

text \<open>\<^verbatim>\<open>THREE.MathUtils.clamp(value, min, max)\<close> is \<^verbatim>\<open>Math.max(min, Math.min(max, value))\<close>.\<close>

definition clamp :: "real \<Rightarrow> real \<Rightarrow> real \<Rightarrow> real" where
  "clamp v lo hi = max lo (min hi v)"


section \<open>The single-file game loop (second half of ai.js)\<close>

text \<open>The module-level variables of the game loop that the functions below read or write,
  as one record. \<open>paddlePosition\<close> is \<^verbatim>\<open>paddle.position\<close>, \<open>ballPosition\<close> is
  \<^verbatim>\<open>ball.position\<close>, and so on.\<close>

record game =
  paddlePosition :: Vector3
  opponentPaddlePosition :: Vector3
  ballPosition :: Vector3
  ballDirection :: Vector3
  playerScore :: nat
  opponentScore :: nat
  isGameStarted :: bool
  isGameOver :: bool
  paddleTilt :: real
  mouseSpeed :: real
  mouseDirection :: Vector2
  lastHitByPlayer :: bool

definition BALL_SPEED :: real where
  "BALL_SPEED = 0.10"

definition GRAVITY :: real where
  "GRAVITY = 0.002"

text \<open>\<^verbatim>\<open>resetBall\<close>: three random draws; the serve starts on the side opposite to the
  last hitter and the direction is rescaled to \<open>BALL_SPEED * 1.2\<close>.\<close>

definition resetBall :: "(nat \<Rightarrow> real) \<Rightarrow> game \<Rightarrow> game" where
  "resetBall rnd g =
     (let g1 = (if lastHitByPlayer g
                then g\<lparr>ballPosition := Vector3 0 0.5 (-3),
                       ballDirection := Vector3 ((rnd 0 - 0.5) * 0.3) (0.15 + rnd 1 * 0.2)
                                                (0.5 + rnd 2 * 0.15)\<rparr>
                else g\<lparr>ballPosition := Vector3 0 0.5 3,
                       ballDirection := Vector3 ((rnd 0 - 0.5) * 0.3) (0.15 + rnd 1 * 0.2)
                                                (- 0.5 - rnd 2 * 0.15)\<rparr>)
      in g1\<lparr>ballDirection :=
              multiplyScalar (normalize_v (ballDirection g1)) (BALL_SPEED * 1.2)\<rparr>)"

text \<open>\<^verbatim>\<open>gameOver\<close>: the two flags; the rest of the function writes to the page.\<close>

definition gameOver :: "game \<Rightarrow> game" where
  "gameOver g = g\<lparr>isGameOver := True, isGameStarted := False\<rparr>"

text \<open>Which scoring branch of \<^verbatim>\<open>checkTableCollision\<close> ran (each one logs its own
  message and returns); \<open>None\<close> when the function falls through to its end.\<close>

datatype scoring = OutOfBounds | BackWall | PlayerWall | NetFault

text \<open>
  \<^verbatim>\<open>checkTableCollision\<close>. \<^verbatim>\<open>ballPos\<close> is an alias of \<^verbatim>\<open>ball.position\<close>, not a copy,
  so the tests after the table bounce read the height the bounce has just written.
\<close>

definition tableBounce :: "game \<Rightarrow> game" where
  "tableBounce g =
     (if vy (ballPosition g) < - 0.4 \<and> vy (ballDirection g) < 0
      then g\<lparr>ballDirection := Vector3 (vx (ballDirection g)) (- vy (ballDirection g) * 0.8)
                                       (vz (ballDirection g)),
             ballPosition := Vector3 (vx (ballPosition g)) (- 0.39) (vz (ballPosition g))\<rparr>
      else g)"

definition sideBounce :: "game \<Rightarrow> game" where
  "sideBounce g =
     (if \<bar>vx (ballPosition g)\<bar> > 2
      then g\<lparr>ballDirection := Vector3 (- vx (ballDirection g)) (vy (ballDirection g))
                                       (vz (ballDirection g))\<rparr>
      else g)"

definition endOfPoint :: "(nat \<Rightarrow> real) \<Rightarrow> game \<Rightarrow> game" where
  "endOfPoint rnd g =
     (if playerScore g \<ge> 11 \<or> opponentScore g \<ge> 11 then gameOver g else resetBall rnd g)"

definition checkTableCollision :: "(nat \<Rightarrow> real) \<Rightarrow> game \<Rightarrow> scoring option \<times> game" where
  "checkTableCollision rnd g0 =
     (let g = sideBounce (tableBounce g0);
          ballPos = ballPosition g
      in if vy ballPos < - 0.4 \<and> vy ballPos > - 0.6 \<and> (\<bar>vx ballPos\<bar> > 2 \<or> \<bar>vz ballPos\<bar> > 4)
         then (Some OutOfBounds,
               endOfPoint rnd (if lastHitByPlayer g
                               then g\<lparr>playerScore := playerScore g + 1\<rparr>
                               else g\<lparr>opponentScore := opponentScore g + 1\<rparr>))
         else if vz ballPos < - 7.5
         then (Some BackWall, resetBall rnd (g\<lparr>playerScore := playerScore g + 1\<rparr>))
         else if vz ballPos > 7.5
         then (Some PlayerWall, resetBall rnd (g\<lparr>opponentScore := opponentScore g + 1\<rparr>))
         else if \<bar>vz ballPos\<bar> < 0.1 \<and> vy ballPos < 0.3 \<and> vy ballPos < 0.0
         then (let g1 = g\<lparr>ballDirection := Vector3 (vx (ballDirection g)) (vy (ballDirection g))
                                                    (- vz (ballDirection g))\<rparr>
               in (Some NetFault,
                   endOfPoint rnd (if lastHitByPlayer g1
                                   then g1\<lparr>opponentScore := opponentScore g1 + 1\<rparr>
                                   else g1\<lparr>playerScore := playerScore g1 + 1\<rparr>)))
         else (None, g))"


text \<open>
  \<^verbatim>\<open>checkPaddleCollision\<close> of the game loop: the player's paddle. The new direction is
  built from the swing, the tilt and the hit offset, normalised and scaled to the speed.
\<close>

definition speedMultiplier :: "game \<Rightarrow> real" where
  "speedMultiplier g = clamp (0.8 + mouseSpeed g * 15) 0.8 1.8"

definition newDirection :: "game \<Rightarrow> Vector3" where
  "newDirection g =
     (let hitOffset = sub (ballPosition g) (paddlePosition g);
          swingDirection = Vector3 (ux (mouseDirection g)) 0 (- uy (mouseDirection g));
          d0 = (if mouseSpeed g > 0.01
                then (let d = multiplyScalar swingDirection 0.7
                      in if vz d > 0 then Vector3 (vx d) (vy d) (vz d * - 1) else d)
                else Vector3 0 0 (- 1));
          tiltContribution = Vector3 0 (sin (paddleTilt g) * 0.8) (cos (paddleTilt g) * - 0.8);
          d1 = add d0 (multiplyScalar tiltContribution 0.2);
          hitPointInfluence = Vector3 (vx hitOffset * 0.5) (vy hitOffset * 0.3) 0;
          d2 = add d1 (multiplyScalar hitPointInfluence 0.1)
      in normalize_v d2)"

text \<open>The two blocks under the heading "make sure the ball always goes up and forward":
  each one, when its test holds, sets one component and rescales the vector to the
  speed.\<close>

definition ensureUp :: "real \<Rightarrow> Vector3 \<Rightarrow> Vector3" where
  "ensureUp speed b =
     (if vy b < 0.05
      then multiplyScalar (normalize_v (Vector3 (vx b) 0.05 (vz b))) speed
      else b)"

definition ensureForward :: "real \<Rightarrow> Vector3 \<Rightarrow> Vector3" where
  "ensureForward speed b =
     (if vz b > 0
      then multiplyScalar (normalize_v (Vector3 (vx b) (vy b) (vz b * - 1))) speed
      else b)"

definition checkPaddleCollision :: "game \<Rightarrow> game" where
  "checkPaddleCollision g =
     (let distance = distanceTo (paddlePosition g) (ballPosition g)
      in if distance < 0.5 \<and> vz (ballDirection g) > 0
         then g\<lparr>lastHitByPlayer := True,
                ballDirection :=
                  ensureForward (BALL_SPEED * speedMultiplier g)
                    (ensureUp (BALL_SPEED * speedMultiplier g)
                       (multiplyScalar (newDirection g) (BALL_SPEED * speedMultiplier g)))\<rparr>
         else g)"

text \<open>\<^verbatim>\<open>checkOpponentPaddleCollision\<close>: the computer's paddle, two random draws.\<close>

definition checkOpponentPaddleCollision :: "(nat \<Rightarrow> real) \<Rightarrow> game \<Rightarrow> game" where
  "checkOpponentPaddleCollision rnd g =
     (let distance = distanceTo (opponentPaddlePosition g) (ballPosition g)
      in if distance < 0.4 \<and> vz (ballDirection g) < 0
         then (let offset = sub (ballPosition g) (opponentPaddlePosition g);
                   d = Vector3 (vx offset * 0.5 + (rnd 0 - 0.5) * 0.2) (0.3 + rnd 1 * 0.2) 1
               in g\<lparr>lastHitByPlayer := False,
                      ballDirection := multiplyScalar (normalize_v d) (BALL_SPEED * 1.2)\<rparr>)
         else g)"


section \<open>The game-state module\<close>

text \<open>The module variables of the game-state module (the second module of the file that
  starts with the configuration constants). Its names repeat those of the game loop, so
  the fields carry the prefix \<open>gs\<close>.\<close>

record game_state =
  gsPlayerScore :: nat
  gsOpponentScore :: nat
  gsIsGameStarted :: bool
  gsIsGameOver :: bool
  gsLastHitByPlayer :: bool

definition gsGameOver :: "game_state \<Rightarrow> game_state" where
  "gsGameOver s = s\<lparr>gsIsGameOver := True, gsIsGameStarted := False\<rparr>"

definition increasePlayerScore :: "game_state \<Rightarrow> bool \<times> game_state" where
  "increasePlayerScore s0 =
     (let s = s0\<lparr>gsPlayerScore := gsPlayerScore s0 + 1\<rparr>
      in if gsPlayerScore s \<ge> 11 \<or> gsOpponentScore s \<ge> 11 then (True, gsGameOver s)
         else (False, s))"

definition increaseOpponentScore :: "game_state \<Rightarrow> bool \<times> game_state" where
  "increaseOpponentScore s0 =
     (let s = s0\<lparr>gsOpponentScore := gsOpponentScore s0 + 1\<rparr>
      in if gsPlayerScore s \<ge> 11 \<or> gsOpponentScore s \<ge> 11 then (True, gsGameOver s)
         else (False, s))"



section \<open>The physics module\<close>

text \<open>
  The module variables \<^verbatim>\<open>ball\<close> (only its position is used; \<open>None\<close> before
  \<^verbatim>\<open>createBall\<close>) and \<^verbatim>\<open>ballVelocity\<close>. A paddle is an argument of the module's
  functions: its position, its rotation about x and y, and \<^verbatim>\<open>userData.velocity\<close> when
  present.

  The score and hit callbacks are arguments too, possibly \<^verbatim>\<open>null\<close>. What they do is up
  to the caller, so they act on a state \<open>'w\<close> of the caller's that the module carries
  along; they are taken not to touch the ball.
\<close>

record physics =
  physBall :: "Vector3 option"
  ballVelocity :: Vector3

record racket =
  position :: Vector3
  rotationX :: real
  rotationY :: real
  userVelocity :: "Vector3 option"

definition ballRadius :: real where
  "ballRadius = 0.02"

definition RESTITUTION :: real where
  "RESTITUTION = 0.95"

definition resetBallVelocity :: "(nat \<Rightarrow> real) \<Rightarrow> bool \<Rightarrow> physics \<Rightarrow> physics" where
  "resetBallVelocity rnd isPlayerServing s =
     (let xVelocity = (rnd 0 * 2 - 1) * 1.5;
          yVelocity = 1 + rnd 1 * 0.5;
          zVelocity = (if isPlayerServing then - 3 - rnd 2 else 3 + rnd 2)
      in s\<lparr>ballVelocity := Vector3 xVelocity yVelocity zVelocity\<rparr>)"

definition resetBallPosition :: "(nat \<Rightarrow> real) \<Rightarrow> bool \<Rightarrow> physics \<Rightarrow> physics" where
  "resetBallPosition rnd isPlayerServing s =
     (case physBall s of
        None \<Rightarrow> s
      | Some _ \<Rightarrow>
          resetBallVelocity rnd isPlayerServing
            (s\<lparr>physBall := Some (if isPlayerServing then Vector3 0 0.5 1
                                  else Vector3 0 0.5 (- 1))\<rparr>))"

text \<open>The blocks of \<^verbatim>\<open>checkCollisions\<close>, in the order of the source. Each one takes the
  ball position \<open>b\<close> it reads and returns whether it set \<^verbatim>\<open>collisionOccurred\<close>.\<close>

definition onTable :: "Vector3 \<Rightarrow> Vector3 \<Rightarrow> bool" where
  "onTable b v \<longleftrightarrow>
     vy b - ballRadius < 0.05 \<and> vy v < 0 \<and> \<bar>vx b\<bar> < 1.37 \<and> \<bar>vz b\<bar> < 0.7625"

definition tableCollision :: "physics \<Rightarrow> bool \<times> physics" where
  "tableCollision s =
     (case physBall s of
        None \<Rightarrow> (False, s)
      | Some b \<Rightarrow>
          if onTable b (ballVelocity s)
          then (True, s\<lparr>physBall := Some (Vector3 (vx b) (0.05 + ballRadius) (vz b)),
                        ballVelocity := Vector3 (vx (ballVelocity s))
                                                (- vy (ballVelocity s) * RESTITUTION)
                                                (vz (ballVelocity s))\<rparr>)
          else (False, s))"

definition floorCollision ::
  "(nat \<Rightarrow> real) \<Rightarrow> ('w \<Rightarrow> 'w) option \<Rightarrow> ('w \<Rightarrow> 'w) option \<Rightarrow> 'w \<times> physics
     \<Rightarrow> bool \<times> 'w \<times> physics" where
  "floorCollision rnd onPlayerScore onOpponentScore ws =
     (case physBall (snd ws) of
        None \<Rightarrow> (False, ws)
      | Some b \<Rightarrow>
          if vy b - ballRadius < - 1 \<and> vy (ballVelocity (snd ws)) < 0
          then (let w' = (if vz b > 0
                          then (case onOpponentScore of None \<Rightarrow> fst ws | Some f \<Rightarrow> f (fst ws))
                          else (case onPlayerScore of None \<Rightarrow> fst ws | Some f \<Rightarrow> f (fst ws)))
                in (True, w', resetBallPosition rnd (vz b > 0) (snd ws)))
          else (False, ws))"

text \<open>The tests of the three wall blocks: the left and right walls, the front and back
  walls, the ceiling.\<close>

definition hitsSideWall :: "Vector3 \<Rightarrow> Vector3 \<Rightarrow> bool" where
  "hitsSideWall b v \<longleftrightarrow>
     (vx b - ballRadius < - 10 \<and> vx v < 0) \<or> (vx b + ballRadius > 10 \<and> vx v > 0)"

definition hitsEndWall :: "Vector3 \<Rightarrow> Vector3 \<Rightarrow> bool" where
  "hitsEndWall b v \<longleftrightarrow>
     (vz b - ballRadius < - 10 \<and> vz v < 0) \<or> (vz b + ballRadius > 10 \<and> vz v > 0)"

definition hitsCeiling :: "Vector3 \<Rightarrow> Vector3 \<Rightarrow> bool" where
  "hitsCeiling b v \<longleftrightarrow> vy b + ballRadius > 9 \<and> vy v > 0"

definition wallCollision :: "physics \<Rightarrow> bool \<times> physics" where
  "wallCollision s0 =
     (case physBall s0 of
        None \<Rightarrow> (False, s0)
      | Some b \<Rightarrow>
          (let v0 = ballVelocity s0;
               hitX = hitsSideWall b v0;
               v1 = (if hitX then Vector3 (- vx v0 * RESTITUTION) (vy v0) (vz v0) else v0);
               hitZ = hitsEndWall b v1;
               v2 = (if hitZ then Vector3 (vx v1) (vy v1) (- vz v1 * RESTITUTION) else v1);
               hitY = hitsCeiling b v2;
               v3 = (if hitY then Vector3 (vx v2) (- vy v2 * RESTITUTION) (vz v2) else v2)
           in (hitX \<or> hitZ \<or> hitY, s0\<lparr>ballVelocity := v3\<rparr>)))"

text \<open>The net: the ball is in the net's slab, below its top edge and above the table,
  within the net's length, and moving towards the plane \<open>z = 0\<close>.\<close>

definition movingTowardsNet :: "Vector3 \<Rightarrow> Vector3 \<Rightarrow> bool" where
  "movingTowardsNet b v \<longleftrightarrow> (vz b > 0 \<and> vz v < 0) \<or> (vz b < 0 \<and> vz v > 0)"

definition atNet :: "Vector3 \<Rightarrow> bool" where
  "atNet b \<longleftrightarrow>
     \<bar>vz b\<bar> < 0.02 \<and> vy b - ballRadius < 0.2025 \<and> vy b > 0.05 \<and> \<bar>vx b\<bar> < 0.7625"

definition netCollision :: "physics \<Rightarrow> bool \<times> physics" where
  "netCollision s =
     (case physBall s of
        None \<Rightarrow> (False, s)
      | Some b \<Rightarrow>
          if atNet b \<and> movingTowardsNet b (ballVelocity s)
          then (True, s\<lparr>ballVelocity := Vector3 (vx (ballVelocity s)) (vy (ballVelocity s))
                                                (- vz (ballVelocity s) * RESTITUTION)\<rparr>)
          else (False, s))"

definition checkPaddleCollision_physics :: "racket \<Rightarrow> physics \<Rightarrow> bool" where
  "checkPaddleCollision_physics paddle s =
     (case physBall s of
        None \<Rightarrow> False
      | Some b \<Rightarrow>
          (let paddlePosition = position paddle;
               paddleWidth = 0.15; paddleHeight = 0.25; paddleDepth = 0.02
           in vx b > vx paddlePosition - paddleWidth / 2 - ballRadius \<and>
              vx b < vx paddlePosition + paddleWidth / 2 + ballRadius \<and>
              vy b > vy paddlePosition - paddleHeight / 2 - ballRadius \<and>
              vy b < vy paddlePosition + paddleHeight / 2 + ballRadius \<and>
              vz b > vz paddlePosition - paddleDepth / 2 - ballRadius \<and>
              vz b < vz paddlePosition + paddleDepth / 2 + ballRadius))"

text \<open>
  \<^verbatim>\<open>calculatePaddleRebound\<close>. Two in-place updates of the source are kept:
  \<^verbatim>\<open>paddleNormal.multiplyScalar(2 * dot)\<close> scales the normal itself, so the direction in
  which the ball is moved out afterwards is the normalised scaled normal; and
  \<^verbatim>\<open>paddle.userData.velocity.multiplyScalar(0.5)\<close> halves the paddle's stored velocity.
\<close>

definition calculatePaddleRebound :: "racket \<Rightarrow> physics \<Rightarrow> racket \<times> physics" where
  "calculatePaddleRebound paddle s =
     (case physBall s of
        None \<Rightarrow> (paddle, s)
      | Some b \<Rightarrow>
          (let n0 = Vector3 0 0 (if vz (position paddle) > 0 then - 1 else 1);
               n1 = applyAxisAngle n0 (Vector3 1 0 0) (rotationX paddle);
               paddleNormal = applyAxisAngle n1 (Vector3 0 1 0) (rotationY paddle);
               incident = ballVelocity s;
               d = dot incident paddleNormal;
               scaledNormal = multiplyScalar paddleNormal (2 * d);
               r0 = sub incident scaledNormal;
               contactPointX = vx b - vx (position paddle);
               contactPointY = vy b - vy (position paddle);
               r1 = Vector3 (vx r0 + contactPointX * 5) (vy r0 + contactPointY * 3) (vz r0);
               halved = map_option (\<lambda>u. multiplyScalar u 0.5) (userVelocity paddle);
               r2 = (case halved of None \<Rightarrow> r1 | Some u \<Rightarrow> add r1 u);
               reflectedVector = multiplyScalar r2 RESTITUTION;
               minDistance = ballRadius + 0.02;
               moveDirection = normalize_v scaledNormal
           in (paddle\<lparr>userVelocity := halved\<rparr>,
               s\<lparr>ballVelocity := reflectedVector,
                 physBall := Some (add b (multiplyScalar moveDirection minDistance))\<rparr>)))"

definition paddleCollision ::
  "bool \<Rightarrow> (bool \<Rightarrow> 'w \<Rightarrow> 'w) option \<Rightarrow> racket option \<Rightarrow> 'w \<times> physics
     \<Rightarrow> bool \<times> racket option \<times> 'w \<times> physics" where
  "paddleCollision isPlayer onPaddleHit paddle ws =
     (case paddle of
        None \<Rightarrow> (False, None, ws)
      | Some p \<Rightarrow>
          if checkPaddleCollision_physics p (snd ws)
          then (let (p', s') = calculatePaddleRebound p (snd ws);
                    w' = (case onPaddleHit of None \<Rightarrow> fst ws | Some f \<Rightarrow> f isPlayer (fst ws))
                in (True, Some p', w', s'))
          else (False, Some p, ws))"

text \<open>\<^verbatim>\<open>checkCollisions\<close> returns \<^verbatim>\<open>collisionOccurred\<close>; the model also returns the two
  paddles and the states it has updated.\<close>

definition checkCollisions ::
  "(nat \<Rightarrow> real) \<Rightarrow> racket option \<Rightarrow> racket option \<Rightarrow> ('w \<Rightarrow> 'w) option \<Rightarrow> ('w \<Rightarrow> 'w) option
     \<Rightarrow> (bool \<Rightarrow> 'w \<Rightarrow> 'w) option \<Rightarrow> 'w \<times> physics
     \<Rightarrow> bool \<times> racket option \<times> racket option \<times> 'w \<times> physics" where
  "checkCollisions rnd paddle aiPaddle onPlayerScore onOpponentScore onPaddleHit ws =
     (case physBall (snd ws) of
        None \<Rightarrow> (False, paddle, aiPaddle, ws)
      | Some _ \<Rightarrow>
          (let (c1, s1) = tableCollision (snd ws);
               (c2, w2, s2) = floorCollision rnd onPlayerScore onOpponentScore (fst ws, s1);
               (c3, s3) = wallCollision s2;
               (c4, s4) = netCollision s3;
               (c5, paddle', w5, s5) = paddleCollision True onPaddleHit paddle (w2, s4);
               (c6, aiPaddle', w6, s6) = paddleCollision False onPaddleHit aiPaddle (w5, s5)
           in (c1 \<or> c2 \<or> c3 \<or> c4 \<or> c5 \<or> c6, paddle', aiPaddle', w6, s6)))"


section \<open>The AI opponent (first half of ai.js)\<close>

datatype AI_STATE = IDLE | PREPARING | TRACKING | RETURNING | MOVING | CELEBRATING | FRUSTRATED

text \<open>A configuration is a JavaScript object with numeric properties: a map from property
  names to numbers, \<open>None\<close> where reading the property gives \<^verbatim>\<open>undefined\<close>. Copying
  it with \<^verbatim>\<open>{ ...c }\<close> gives an equal map.\<close>

type_synonym config = "string \<rightharpoonup> real"

definition EASY_CONFIG :: config where
  "EASY_CONFIG =
     [''reactionTime'' \<mapsto> 0.8, ''movementSpeed'' \<mapsto> 0.5, ''accuracy'' \<mapsto> 0.5,
      ''prediction'' \<mapsto> 0.3, ''errorRate'' \<mapsto> 0.4, ''returnHeight'' \<mapsto> 0.3,
      ''returnSpeed'' \<mapsto> 0.6, ''spinRate'' \<mapsto> 0.3, ''recoverySpeed'' \<mapsto> 0.5,
      ''aggression'' \<mapsto> 0.2, ''consistency'' \<mapsto> 0.4]"

definition MEDIUM_CONFIG :: config where
  "MEDIUM_CONFIG =
     [''reactionTime'' \<mapsto> 0.5, ''movementSpeed'' \<mapsto> 0.7, ''accuracy'' \<mapsto> 0.7,
      ''prediction'' \<mapsto> 0.6, ''errorRate'' \<mapsto> 0.2, ''returnHeight'' \<mapsto> 0.5,
      ''returnSpeed'' \<mapsto> 0.8, ''spinRate'' \<mapsto> 0.6, ''recoverySpeed'' \<mapsto> 0.7,
      ''aggression'' \<mapsto> 0.5, ''consistency'' \<mapsto> 0.7]"

definition HARD_CONFIG :: config where
  "HARD_CONFIG =
     [''reactionTime'' \<mapsto> 0.2, ''movementSpeed'' \<mapsto> 0.9, ''accuracy'' \<mapsto> 0.9,
      ''prediction'' \<mapsto> 0.9, ''errorRate'' \<mapsto> 0.05, ''returnHeight'' \<mapsto> 0.6,
      ''returnSpeed'' \<mapsto> 0.95, ''spinRate'' \<mapsto> 0.8, ''recoverySpeed'' \<mapsto> 0.9,
      ''aggression'' \<mapsto> 0.8, ''consistency'' \<mapsto> 0.9]"

definition ADAPTIVE_CONFIG :: config where
  "ADAPTIVE_CONFIG =
     [''reactionTime'' \<mapsto> 0.5, ''movementSpeed'' \<mapsto> 0.7, ''accuracy'' \<mapsto> 0.7,
      ''prediction'' \<mapsto> 0.6, ''errorRate'' \<mapsto> 0.2, ''returnHeight'' \<mapsto> 0.5,
      ''returnSpeed'' \<mapsto> 0.8, ''spinRate'' \<mapsto> 0.6, ''recoverySpeed'' \<mapsto> 0.7,
      ''aggression'' \<mapsto> 0.5, ''consistency'' \<mapsto> 0.7, ''adaptationRate'' \<mapsto> 0.1]"

text \<open>
  \<^verbatim>\<open>AI_CONFIG[difficulty]\<close> is a property read on an object literal, so it follows the
  prototype chain: besides the four presets, the names of the members of
  \<^verbatim>\<open>Object.prototype\<close> give a value (a function, or the prototype object itself for
  \<^verbatim>\<open>__proto__\<close>) that is truthy and has no enumerable own property. Every other name
  gives \<^verbatim>\<open>undefined\<close>.
\<close>

datatype lookup = Preset config | Inherited | Undefined

definition Object_prototype :: "string list" where
  "Object_prototype =
     [''constructor'', ''__defineGetter__'', ''__defineSetter__'', ''hasOwnProperty'',
      ''__lookupGetter__'', ''__lookupSetter__'', ''isPrototypeOf'', ''propertyIsEnumerable'',
      ''toString'', ''valueOf'', ''__proto__'', ''toLocaleString'']"

definition AI_DIFFICULTY :: "string list" where
  "AI_DIFFICULTY = [''easy'', ''medium'', ''hard'', ''adaptive'']"

definition AI_CONFIG :: "string \<Rightarrow> lookup" where
  "AI_CONFIG k =
     (if k = ''easy'' then Preset EASY_CONFIG
      else if k = ''medium'' then Preset MEDIUM_CONFIG
      else if k = ''hard'' then Preset HARD_CONFIG
      else if k = ''adaptive'' then Preset ADAPTIVE_CONFIG
      else if k \<in> set Object_prototype then Inherited
      else Undefined)"

definition truthy :: "lookup \<Rightarrow> bool" where
  "truthy v \<longleftrightarrow> v \<noteq> Undefined"

text \<open>\<^verbatim>\<open>{ ...v }\<close>: the enumerable own properties of \<open>v\<close>; none for \<^verbatim>\<open>undefined\<close>.\<close>

definition spread :: "lookup \<Rightarrow> config" where
  "spread v = (case v of Preset c \<Rightarrow> c | Inherited \<Rightarrow> Map.empty | Undefined \<Rightarrow> Map.empty)"

text \<open>The ball the AI looks at (\<^verbatim>\<open>this.ball.position\<close>, \<^verbatim>\<open>this.ball.velocity\<close>, the
  latter possibly absent) and the counters of \<^verbatim>\<open>playerPatterns\<close>.\<close>

record ai_ball =
  bPosition :: Vector3
  bVelocity :: "Vector3 option"

record patterns =
  leftSide :: nat
  rightSide :: nat
  shortBalls :: nat
  longBalls :: nat
  spinBalls :: nat

text \<open>The fields of the class. \<open>paddle\<close> is \<^verbatim>\<open>this.paddle.position\<close>, \<open>None\<close> when
  \<^verbatim>\<open>this.paddle\<close> is \<^verbatim>\<open>null\<close>; \<open>gameState\<close> is only tested for presence.\<close>

record AI =
  difficulty :: string
  paddle :: "Vector3 option"
  gameState :: "unit option"
  ball :: "ai_ball option"
  config :: config
  state :: AI_STATE
  target :: Vector3
  stateTime :: real
  reactionTimer :: real
  decisionTimer :: real
  anticipationPoint :: Vector3
  lastKnownBallPosition :: Vector3
  basePosition :: Vector3
  movingToBase :: bool
  playerPatterns :: patterns
  adaptiveConfig :: config
  consecutivePointsLost :: nat
  consecutivePointsWon :: nat

definition andThen :: "error + 'a \<Rightarrow> ('a \<Rightarrow> error + 'b) \<Rightarrow> error + 'b" where
  "andThen r f = (case r of Inl e \<Rightarrow> Inl e | Inr x \<Rightarrow> f x)"

text \<open>The constructor; \<^verbatim>\<open>options.difficulty || 'medium'\<close> replaces a missing or empty
  difficulty.\<close>

definition newAI :: "string option \<Rightarrow> Vector3 option \<Rightarrow> unit option \<Rightarrow> ai_ball option \<Rightarrow> AI" where
  "newAI optDifficulty optPaddle optGameState optBall =
     (let d = (case optDifficulty of None \<Rightarrow> ''medium''
               | Some k \<Rightarrow> if k = [] then ''medium'' else k);
          c = spread (AI_CONFIG d)
      in \<lparr>difficulty = d, paddle = optPaddle, gameState = optGameState, ball = optBall,
          config = c, state = IDLE, target = Vector3 0 0 0, stateTime = 0, reactionTimer = 0,
          decisionTimer = 0, anticipationPoint = Vector3 0 0 0,
          lastKnownBallPosition = Vector3 0 0 0,
          basePosition = (case optPaddle of None \<Rightarrow> Vector3 0 0 0 | Some p \<Rightarrow> p),
          movingToBase = False,
          playerPatterns = \<lparr>leftSide = 0, rightSide = 0, shortBalls = 0, longBalls = 0,
                             spinBalls = 0\<rparr>,
          adaptiveConfig = c, consecutivePointsLost = 0, consecutivePointsWon = 0\<rparr>)"

definition changeState :: "AI_STATE \<Rightarrow> AI \<Rightarrow> AI" where
  "changeState newState s = s\<lparr>state := newState, stateTime := 0\<rparr>"

definition isBallApproaching :: "Vector3 \<Rightarrow> Vector3 \<Rightarrow> bool" where
  "isBallApproaching ballPos ballVel \<longleftrightarrow> vz ballVel > 0"


text \<open>\<^verbatim>\<open>calculateAnticipationPoint\<close>: one random draw. It reads \<^verbatim>\<open>this.paddle.position\<close>
  without a test, and returns early, writing nothing, when the ball hardly moves in z
  or the time to reach the paddle plane is not positive.\<close>

definition calculateAnticipationPoint ::
  "(nat \<Rightarrow> real) \<Rightarrow> Vector3 \<Rightarrow> Vector3 \<Rightarrow> AI \<Rightarrow> error + AI" where
  "calculateAnticipationPoint rnd ballPos ballVel s =
     (case paddle s of
        None \<Rightarrow> Inl TypeError
      | Some paddlePos \<Rightarrow>
          (let aiTableZ = vz paddlePos - 0.5
           in if \<bar>vz ballVel\<bar> < 0.001 then Inr s
              else (let timeToReach = (aiTableZ - vz ballPos) / vz ballVel
                    in if timeToReach \<le> 0 then Inr s
                       else (case config s ''accuracy'' of
                               None \<Rightarrow> Inl NotANumber
                             | Some accuracy \<Rightarrow>
                                 (let x0 = vx ballPos + vx ballVel * timeToReach;
                                      y0 = vy ballPos + vy ballVel * timeToReach;
                                      accuracyFactor = 1 - accuracy;
                                      x1 = x0 + (rnd 0 * 2 - 1) * accuracyFactor;
                                      x2 = max (- 2) (min 2 x1)
                                  in Inr (s\<lparr>anticipationPoint := Vector3 x2 y0 aiTableZ\<rparr>))))))"

definition moveTowardsAnticipationPoint :: "real \<Rightarrow> AI \<Rightarrow> error + AI" where
  "moveTowardsAnticipationPoint deltaTime s =
     (case paddle s of
        None \<Rightarrow> Inr s
      | Some paddlePos \<Rightarrow>
          (let targetX = vx (anticipationPoint s);
               currentX = vx paddlePos;
               distance = targetX - currentX;
               direction = sgn distance
           in case config s ''movementSpeed'' of
                None \<Rightarrow> Inl NotANumber
              | Some movementSpeed \<Rightarrow>
                  (let speed = movementSpeed * 5;
                       moveAmount = speed * deltaTime
                   in if \<bar>distance\<bar> \<le> moveAmount
                      then Inr (s\<lparr>paddle := Some (Vector3 targetX (vy paddlePos) (vz paddlePos))\<rparr>)
                      else Inr (s\<lparr>paddle := Some (Vector3 (currentX + direction * moveAmount)
                                                            (vy paddlePos) (vz paddlePos))\<rparr>))))"

definition moveTowardsBasePosition :: "real \<Rightarrow> AI \<Rightarrow> error + bool \<times> AI" where
  "moveTowardsBasePosition deltaTime s =
     (case paddle s of
        None \<Rightarrow> Inr (False, s)
      | Some paddlePos \<Rightarrow>
          (let currentX = vx paddlePos;
               distance = vx (basePosition s) - currentX;
               direction = sgn distance
           in if \<bar>distance\<bar> < 0.1
              then Inr (True, s\<lparr>paddle := Some (Vector3 (vx (basePosition s)) (vy paddlePos)
                                                         (vz paddlePos))\<rparr>)
              else (case config s ''recoverySpeed'' of
                      None \<Rightarrow> Inl NotANumber
                    | Some recoverySpeed \<Rightarrow>
                        (let speed = recoverySpeed * 3;
                             moveAmount = speed * deltaTime
                         in Inr (False,
                                 s\<lparr>paddle := Some (Vector3 (currentX + direction * moveAmount)
                                                           (vy paddlePos) (vz paddlePos))\<rparr>)))))"

definition isReadyToReturnBall :: "Vector3 \<Rightarrow> AI \<Rightarrow> error + bool" where
  "isReadyToReturnBall ballPos s =
     (case paddle s of
        None \<Rightarrow> Inl TypeError
      | Some paddlePos \<Rightarrow> (let aiTableZ = vz paddlePos - 0.5
                          in Inr (\<bar>vz ballPos - aiTableZ\<bar> < 0.2)))"

text \<open>\<^verbatim>\<open>returnBall\<close>: up to three random draws. \<^verbatim>\<open>Math.random() < this.config.spinRate\<close>
  is false when the spin rate is \<^verbatim>\<open>undefined\<close>.\<close>

definition returnBall :: "(nat \<Rightarrow> real) \<Rightarrow> AI \<Rightarrow> error + AI" where
  "returnBall rnd s =
     (case ball s of
        None \<Rightarrow> Inr s
      | Some b \<Rightarrow>
          (case bVelocity b of
             None \<Rightarrow> Inr s
           | Some v \<Rightarrow>
               (case (config s ''returnSpeed'', config s ''accuracy'') of
                  (Some powerFactor, Some accuracy) \<Rightarrow>
                    (let v1 = Vector3 (vx v) (vy v) (vz v * - 1);
                         v2 = multiplyScalar v1 powerFactor;
                         randomFactor = 1 - accuracy;
                         v3 = Vector3 (vx v2 + (rnd 0 * 2 - 1) * randomFactor) (max 0.1 (vy v2))
                                      (vz v2);
                         v4 = (case config s ''spinRate'' of
                                 None \<Rightarrow> v3
                               | Some spinRate \<Rightarrow>
                                   if rnd 1 < spinRate
                                   then Vector3 (vx v3 + (rnd 2 * 2 - 1) * spinRate) (vy v3) (vz v3)
                                   else v3)
                     in Inr (s\<lparr>ball := Some (b\<lparr>bVelocity := Some v4\<rparr>)\<rparr>))
                | _ \<Rightarrow> Inl NotANumber)))"

definition executeIdleState :: "real \<Rightarrow> Vector3 \<Rightarrow> Vector3 \<Rightarrow> AI \<Rightarrow> error + AI" where
  "executeIdleState deltaTime ballPos ballVel s =
     (if isBallApproaching ballPos ballVel
      then Inr ((changeState PREPARING s)\<lparr>reactionTimer := 0\<rparr>)
      else andThen (moveTowardsBasePosition deltaTime s) (\<lambda>r. Inr (snd r)))"

definition executePreparingState ::
  "(real \<Rightarrow> real \<Rightarrow> real) \<Rightarrow> (nat \<Rightarrow> real) \<Rightarrow> real \<Rightarrow> Vector3 \<Rightarrow> Vector3 \<Rightarrow> AI
     \<Rightarrow> error + AI" where
  "executePreparingState fadd rnd deltaTime ballPos ballVel s0 =
     (let s = s0\<lparr>reactionTimer := fadd (reactionTimer s0) deltaTime\<rparr>
      in if \<not> isBallApproaching ballPos ballVel then Inr (changeState IDLE s)
         else if (case config s ''reactionTime'' of
                    None \<Rightarrow> False
                  | Some reactionTime \<Rightarrow> reactionTimer s \<ge> reactionTime)
         then calculateAnticipationPoint rnd ballPos ballVel (changeState TRACKING s)
         else andThen (moveTowardsBasePosition deltaTime s) (\<lambda>r. Inr (snd r)))"

definition executeTrackingState ::
  "(nat \<Rightarrow> real) \<Rightarrow> real \<Rightarrow> Vector3 \<Rightarrow> Vector3 \<Rightarrow> AI \<Rightarrow> error + AI" where
  "executeTrackingState rnd deltaTime ballPos ballVel s =
     (if \<not> isBallApproaching ballPos ballVel then Inr (changeState IDLE s)
      else andThen (if stateTime s > 0.1
                    then andThen (calculateAnticipationPoint rnd ballPos ballVel s)
                                 (\<lambda>s'. Inr (s'\<lparr>stateTime := 0\<rparr>))
                    else Inr s)
             (\<lambda>s1. andThen (moveTowardsAnticipationPoint deltaTime s1)
                (\<lambda>s2. andThen (isReadyToReturnBall ballPos s2)
                   (\<lambda>ready. Inr (if ready then changeState RETURNING s2 else s2)))))"

definition executeReturningState :: "(nat \<Rightarrow> real) \<Rightarrow> AI \<Rightarrow> error + AI" where
  "executeReturningState rnd s =
     (if stateTime s > 0.1
      then andThen (returnBall rnd s) (\<lambda>s'. Inr (changeState MOVING s'))
      else Inr s)"

definition executeMovingState :: "real \<Rightarrow> AI \<Rightarrow> error + AI" where
  "executeMovingState deltaTime s =
     andThen (moveTowardsBasePosition deltaTime s)
       (\<lambda>r. Inr (if fst r then changeState IDLE (snd r) else snd r))"

definition executeCelebratingState :: "AI \<Rightarrow> AI" where
  "executeCelebratingState s = (if stateTime s > 1.0 then changeState MOVING s else s)"

definition executeFrustratedState :: "AI \<Rightarrow> AI" where
  "executeFrustratedState s = (if stateTime s > 1.0 then changeState MOVING s else s)"

definition makeDecisions :: "AI \<Rightarrow> AI" where
  "makeDecisions s =
     (let l = leftSide (playerPatterns s);
          r = rightSide (playerPatterns s);
          totalShots = l + r;
          setBaseX = (\<lambda>x. s\<lparr>basePosition := Vector3 x (vy (basePosition s)) (vz (basePosition s))\<rparr>)
      in if totalShots > 5
         then (if real l > real r * 1.5 then setBaseX (- 0.3)
               else if real r > real l * 1.5 then setBaseX 0.3
               else setBaseX 0)
         else s)"

text \<open>\<^verbatim>\<open>update\<close>: nothing happens unless paddle, ball and game state are all attached.\<close>

definition update ::
  "(real \<Rightarrow> real \<Rightarrow> real) \<Rightarrow> (nat \<Rightarrow> real) \<Rightarrow> real \<Rightarrow> AI \<Rightarrow> error + AI" where
  "update fadd rnd deltaTime s0 =
     (case (paddle s0, ball s0, gameState s0) of
        (Some _, Some b, Some _) \<Rightarrow>
          (let ballPos = bPosition b;
               ballVel = (case bVelocity b of Some v \<Rightarrow> v | None \<Rightarrow> Vector3 0 0 0);
               s = s0\<lparr>stateTime := fadd (stateTime s0) deltaTime,
                      lastKnownBallPosition := ballPos\<rparr>
           in andThen
                (case state s of
                   IDLE \<Rightarrow> executeIdleState deltaTime ballPos ballVel s
                 | PREPARING \<Rightarrow> executePreparingState fadd rnd deltaTime ballPos ballVel s
                 | TRACKING \<Rightarrow> executeTrackingState rnd deltaTime ballPos ballVel s
                 | RETURNING \<Rightarrow> executeReturningState rnd s
                 | MOVING \<Rightarrow> executeMovingState deltaTime s
                 | CELEBRATING \<Rightarrow> Inr (executeCelebratingState s)
                 | FRUSTRATED \<Rightarrow> Inr (executeFrustratedState s))
                (\<lambda>s1. let s2 = s1\<lparr>decisionTimer := fadd (decisionTimer s1) deltaTime\<rparr>
                      in Inr (if decisionTimer s2 \<ge> 0.5
                              then (makeDecisions s2)\<lparr>decisionTimer := 0\<rparr>
                              else s2)))
      | _ \<Rightarrow> Inr s0)"

text \<open>A run of frames: before each call of \<^verbatim>\<open>update\<close> the ball object holds what the
  physics has written into it (\<open>tickBall\<close>); \<open>tickDelta\<close> is the frame time and
  \<open>tickRandom\<close> the random draws of that call.\<close>

record tick =
  tickDelta :: real
  tickBall :: ai_ball
  tickRandom :: "nat \<Rightarrow> real"

fun runTicks :: "(real \<Rightarrow> real \<Rightarrow> real) \<Rightarrow> tick list \<Rightarrow> AI \<Rightarrow> error + AI" where
  "runTicks fadd [] s = Inr s"
| "runTicks fadd (t # ts) s =
     andThen (update fadd (tickRandom t) (tickDelta t) (s\<lparr>ball := Some (tickBall t)\<rparr>))
       (runTicks fadd ts)"

text \<open>\<^verbatim>\<open>adjustDifficulty\<close>: the loop over the eleven property names, each read from and
  written to \<^verbatim>\<open>adaptiveConfig\<close>; afterwards \<^verbatim>\<open>config\<close> is the same object.\<close>

definition properties :: "string list" where
  "properties =
     [''reactionTime'', ''movementSpeed'', ''accuracy'', ''prediction'', ''errorRate'',
      ''returnHeight'', ''returnSpeed'', ''spinRate'', ''recoverySpeed'', ''aggression'',
      ''consistency'']"

definition adjusted :: "bool \<Rightarrow> real \<Rightarrow> string \<Rightarrow> real \<Rightarrow> real" where
  "adjusted makeEasier adjustRate prop v =
     (if prop = ''reactionTime'' \<or> prop = ''errorRate''
      then (if makeEasier then min 1 (v + adjustRate) else max 0.1 (v - adjustRate))
      else (if makeEasier then max 0.1 (v - adjustRate) else min 1 (v + adjustRate)))"

fun forEachProperty :: "bool \<Rightarrow> real \<Rightarrow> string list \<Rightarrow> config \<Rightarrow> error + config" where
  "forEachProperty makeEasier adjustRate [] c = Inr c"
| "forEachProperty makeEasier adjustRate (prop # props) c =
     (case c prop of
        None \<Rightarrow> Inl NotANumber
      | Some v \<Rightarrow>
          forEachProperty makeEasier adjustRate props
            (c(prop \<mapsto> adjusted makeEasier adjustRate prop v)))"

definition adjustDifficulty :: "bool \<Rightarrow> AI \<Rightarrow> error + AI" where
  "adjustDifficulty makeEasier s =
     (if difficulty s \<noteq> ''adaptive'' then Inr s
      else (case config s ''adaptationRate'' of
              None \<Rightarrow> Inl NotANumber
            | Some adjustRate \<Rightarrow>
                andThen (forEachProperty makeEasier adjustRate properties (adaptiveConfig s))
                  (\<lambda>c. Inr (s\<lparr>adaptiveConfig := c, config := c\<rparr>))))"

definition onPlayerScored :: "AI \<Rightarrow> error + AI" where
  "onPlayerScored s0 =
     (let s = s0\<lparr>consecutivePointsLost := consecutivePointsLost s0 + 1,
                consecutivePointsWon := 0\<rparr>
      in andThen (if difficulty s = ''adaptive'' then adjustDifficulty True s else Inr s)
           (\<lambda>s'. Inr (changeState FRUSTRATED s')))"

definition onAIScored :: "AI \<Rightarrow> error + AI" where
  "onAIScored s0 =
     (let s = s0\<lparr>consecutivePointsWon := consecutivePointsWon s0 + 1,
                consecutivePointsLost := 0\<rparr>
      in andThen (if difficulty s = ''adaptive'' then adjustDifficulty False s else Inr s)
           (\<lambda>s'. Inr (changeState CELEBRATING s')))"

definition setDifficulty :: "string \<Rightarrow> AI \<Rightarrow> AI" where
  "setDifficulty d s =
     (if truthy (AI_CONFIG d)
      then (let c = spread (AI_CONFIG d) in s\<lparr>difficulty := d, config := c, adaptiveConfig := c\<rparr>)
      else s)"


section \<open>Notions used in the statements\<close>

text \<open>A frame in which the ball moves towards the AI, as \<^verbatim>\<open>update\<close> reads it: the ball
  has a velocity and \<^verbatim>\<open>isBallApproaching\<close> holds of it.\<close>

definition approaching :: "tick \<Rightarrow> bool" where
  "approaching t =
     (case bVelocity (tickBall t) of
        None \<Rightarrow> False
      | Some v \<Rightarrow> isBallApproaching (bPosition (tickBall t)) v)"

text \<open>The reaction timer after the frames \<open>ts\<close> when it was zero before them: their
  frame times added to it one after the other by the addition of the timers.\<close>

definition accumulated :: "(real \<Rightarrow> real \<Rightarrow> real) \<Rightarrow> tick list \<Rightarrow> real" where
  "accumulated fadd ts = foldl fadd 0 (map tickDelta ts)"

text \<open>The AI has its paddle and the game state attached (the ball comes with each frame).\<close>

definition wired :: "AI \<Rightarrow> bool" where
  "wired s \<longleftrightarrow> paddle s \<noteq> None \<and> gameState s \<noteq> None"

text \<open>The state of paddle and ball in which \<^verbatim>\<open>calculateAnticipationPoint\<close> returns
  early: the ball hardly moves in \<open>z\<close>, or its time to the paddle plane is not positive.
  (Without a ball velocity \<^verbatim>\<open>update\<close> works with the zero vector.)\<close>

definition skipped :: "AI \<Rightarrow> bool" where
  "skipped s =
     (case (paddle s, ball s) of
        (Some p, Some b) \<Rightarrow>
          (case bVelocity b of
             None \<Rightarrow> True
           | Some v \<Rightarrow> \<bar>vz v\<bar> < 0.001 \<or> (vz p - 0.5 - vz (bPosition b)) / vz v \<le> 0)
      | _ \<Rightarrow> True)"

text \<open>A sequence of points: each one is reported to the AI by \<^verbatim>\<open>onPlayerScored\<close> (the AI
  lost it) or by \<^verbatim>\<open>onAIScored\<close> (the AI won it).\<close>

datatype point = PlayerPoint | AIPoint

fun afterPoints :: "point list \<Rightarrow> AI \<Rightarrow> error + AI" where
  "afterPoints [] s = Inr s"
| "afterPoints (PlayerPoint # ps) s = andThen (onPlayerScored s) (afterPoints ps)"
| "afterPoints (AIPoint # ps) s = andThen (onAIScored s) (afterPoints ps)"

text \<open>Every property that \<^verbatim>\<open>adjustDifficulty\<close> tunes is present with a value in
  \<open>[0.1, 1]\<close>; the adaptation rate is present and not negative (the adaptive preset has
  \<open>0.1\<close>, and nothing in the class writes it).\<close>

definition inBounds :: "config \<Rightarrow> bool" where
  "inBounds c =
     list_all (\<lambda>p. case c p of None \<Rightarrow> False | Some v \<Rightarrow> 0.1 \<le> v \<and> v \<le> 1) properties"

definition rateOk :: "config \<Rightarrow> bool" where
  "rateOk c = (case c ''adaptationRate'' of None \<Rightarrow> False | Some r \<Rightarrow> 0 \<le> r)"

text \<open>A paddle argument of \<^verbatim>\<open>checkCollisions\<close> that is \<^verbatim>\<open>null\<close> or does not touch the
  ball.\<close>

definition noContact :: "racket option \<Rightarrow> physics \<Rightarrow> bool" where
  "noContact pad s =
     (case pad of None \<Rightarrow> True | Some p \<Rightarrow> \<not> checkPaddleCollision_physics p s)"


section \<open>Concrete inputs\<close>

text \<open>A fixed sequence of random draws, and a game-loop state with the ball, the scores and
  the last hitter as given, in a running game with both paddles upright and at rest.\<close>

definition rnd_half :: "nat \<Rightarrow> real" where
  "rnd_half n = 0.5"

definition game_at :: "Vector3 \<Rightarrow> Vector3 \<Rightarrow> nat \<Rightarrow> nat \<Rightarrow> bool \<Rightarrow> game" where
  "game_at pos dir ps os hit =
     \<lparr>paddlePosition = Vector3 0 0.5 1.5, opponentPaddlePosition = Vector3 0 0.3 (- 3),
      ballPosition = pos, ballDirection = dir, playerScore = ps, opponentScore = os,
      isGameStarted = True, isGameOver = False, paddleTilt = 0, mouseSpeed = 0,
      mouseDirection = Vector2 0 0, lastHitByPlayer = hit\<rparr>"




text \<open>The physics module with the ball at a position and velocity; an upright paddle at
  rest; AIs built by the constructor; a frame of a given length with the ball flying
  towards the AI.\<close>

definition physics_at :: "Vector3 \<Rightarrow> Vector3 \<Rightarrow> physics" where
  "physics_at b v = \<lparr>physBall = Some b, ballVelocity = v\<rparr>"

definition racket_at :: "Vector3 \<Rightarrow> racket" where
  "racket_at p = \<lparr>position = p, rotationX = 0, rotationY = 0, userVelocity = None\<rparr>"

definition medium_ai :: AI where
  "medium_ai = newAI (Some ''medium'') (Some (Vector3 0 0.3 3)) (Some ()) None"

definition hard_ai :: AI where
  "hard_ai = newAI (Some ''hard'') (Some (Vector3 0 0.3 3)) (Some ()) None"

definition adaptive_ai :: AI where
  "adaptive_ai = newAI (Some ''adaptive'') (Some (Vector3 0 0.3 3)) (Some ()) None"

text \<open>An AI built with the easy preset, and its paddle then one unit beside the base
  position, where following a ball has taken it.\<close>

definition displaced_ai :: AI where
  "displaced_ai =
     (newAI (Some ''easy'') (Some (Vector3 0 0.3 3)) (Some ()) None)
       \<lparr>paddle := Some (Vector3 1 0.3 3)\<rparr>"

definition tick_of :: "real \<Rightarrow> tick" where
  "tick_of d =
     \<lparr>tickDelta = d,
      tickBall = \<lparr>bPosition = Vector3 0 0.5 (- 3), bVelocity = Some (Vector3 0 1 3)\<rparr>,
      tickRandom = rnd_half\<rparr>"


section \<open>The blocks of \<^verbatim>\<open>checkCollisions\<close>\<close>

text \<open>A paddle that is absent or not touched leaves everything as it is.\<close>

lemma paddleCollision_none:
  "noContact pad (snd ws) \<Longrightarrow> paddleCollision isPlayer f pad ws = (False, pad, ws)"
  by (auto simp add: paddleCollision_def noContact_def split: option.splits)

text \<open>The three wall blocks together: each one reflects its own component, and none of the
  tests reads a component that an earlier block has written.\<close>

lemma wallCollision_result:
  assumes "physBall s = Some b"
  shows "wallCollision s =
    (hitsSideWall b (ballVelocity s) \<or> hitsEndWall b (ballVelocity s)
       \<or> hitsCeiling b (ballVelocity s),
     s\<lparr>ballVelocity :=
         Vector3 (if hitsSideWall b (ballVelocity s) then - vx (ballVelocity s) * RESTITUTION
                  else vx (ballVelocity s))
                 (if hitsCeiling b (ballVelocity s) then - vy (ballVelocity s) * RESTITUTION
                  else vy (ballVelocity s))
                 (if hitsEndWall b (ballVelocity s) then - vz (ballVelocity s) * RESTITUTION
                  else vz (ballVelocity s))\<rparr>)"
  using assms
  by (auto simp add: wallCollision_def Let_def hitsEndWall_def hitsCeiling_def)


section \<open>Scoring\<close>

lemma resetBall_keeps [simp]:
  "playerScore (resetBall rnd g) = playerScore g"
  "opponentScore (resetBall rnd g) = opponentScore g"
  "isGameOver (resetBall rnd g) = isGameOver g"
  "isGameStarted (resetBall rnd g) = isGameStarted g"
  "lastHitByPlayer (resetBall rnd g) = lastHitByPlayer g"
  "ballPosition (resetBall rnd g) =
     (if lastHitByPlayer g then Vector3 0 0.5 (- 3) else Vector3 0 0.5 3)"
  by (simp_all add: resetBall_def Let_def)

lemma bounces_keep [simp]:
  "playerScore (sideBounce (tableBounce g)) = playerScore g"
  "opponentScore (sideBounce (tableBounce g)) = opponentScore g"
  "isGameOver (sideBounce (tableBounce g)) = isGameOver g"
  "isGameStarted (sideBounce (tableBounce g)) = isGameStarted g"
  "lastHitByPlayer (sideBounce (tableBounce g)) = lastHitByPlayer g"
  "vx (ballPosition (sideBounce (tableBounce g))) = vx (ballPosition g)"
  "vz (ballPosition (sideBounce (tableBounce g))) = vz (ballPosition g)"
  by (simp_all add: sideBounce_def tableBounce_def)

lemma bounce_height:
  "vy (ballPosition (sideBounce (tableBounce g))) =
     (if vy (ballPosition g) < - 0.4 \<and> vy (ballDirection g) < 0 then - 0.39
      else vy (ballPosition g))"
  by (simp add: sideBounce_def tableBounce_def)

text \<open>The branch of \<^verbatim>\<open>checkTableCollision\<close> under the heading of out-of-bounds gives the
  point to the side that hit last. It comes after the table bounce, which lifts every falling
  ball below \<open>y = - 0.4\<close> to \<open>- 0.39\<close>, on the table or off it: so the branch runs only
  for a ball that is below the table plane and not falling, never for one that comes down to
  it.\<close>

lemma out_of_bounds_branch_awards_last_hitter:
  assumes "fst (checkTableCollision rnd g) = Some OutOfBounds"
  shows "playerScore (snd (checkTableCollision rnd g)) =
           playerScore g + (if lastHitByPlayer g then 1 else 0)
       \<and> opponentScore (snd (checkTableCollision rnd g)) =
           opponentScore g + (if lastHitByPlayer g then 0 else 1)"
  using assms
  by (auto simp add: checkTableCollision_def Let_def endOfPoint_def gameOver_def
      split: if_splits)

lemma out_of_bounds_branch_needs_rising_ball:
  assumes "fst (checkTableCollision rnd g) = Some OutOfBounds"
  shows "vy (ballPosition g) < - 0.4 \<and> - 0.6 < vy (ballPosition g)
       \<and> 0 \<le> vy (ballDirection g)
       \<and> (\<bar>vx (ballPosition g)\<bar> > 2 \<or> \<bar>vz (ballPosition g)\<bar> > 4)"
  using assms
  by (auto simp add: checkTableCollision_def Let_def bounce_height split: if_splits)






text \<open>The out-of-bounds and net branches end the match when a score has reached 11, and
  serve no new ball; the two wall branches never look at the score, and neither do they
  touch the game-over flag. The score functions of the game-state module check as the
  first two branches do.\<close>

lemma checked_branches_end_the_match:
  assumes "fst (checkTableCollision rnd g) = Some OutOfBounds
         \<or> fst (checkTableCollision rnd g) = Some NetFault"
    and "playerScore (snd (checkTableCollision rnd g)) \<ge> 11
       \<or> opponentScore (snd (checkTableCollision rnd g)) \<ge> 11"
  shows "isGameOver (snd (checkTableCollision rnd g))
       \<and> \<not> isGameStarted (snd (checkTableCollision rnd g))
       \<and> ballPosition (snd (checkTableCollision rnd g)) =
           ballPosition (sideBounce (tableBounce g))"
  using assms
  by (auto simp add: checkTableCollision_def Let_def endOfPoint_def gameOver_def
      split: if_splits)

lemma wall_branches_leave_game_over:
  assumes "fst (checkTableCollision rnd g) = Some BackWall
         \<or> fst (checkTableCollision rnd g) = Some PlayerWall"
  shows "isGameOver (snd (checkTableCollision rnd g)) = isGameOver g"
  using assms
  by (auto simp add: checkTableCollision_def Let_def endOfPoint_def gameOver_def
      split: if_splits)

lemma increase_score_checks_target:
  "gsPlayerScore s = 10 \<Longrightarrow> gsIsGameOver (snd (increasePlayerScore s))"
  "gsOpponentScore s = 10 \<Longrightarrow> gsIsGameOver (snd (increaseOpponentScore s))"
  by (simp_all add: increasePlayerScore_def increaseOpponentScore_def gsGameOver_def Let_def)

text \<open>
  C2 at the back wall. The player has 10 points and the ball is behind the computer's end
  (\<open>z = - 8\<close>): \<^verbatim>\<open>checkTableCollision\<close> gives the player the eleventh point, the match is
  not over, and the ball is served again from \<open>(0, 0.5, - 3)\<close>.
\<close>

theorem back_wall_point_at_ten_goes_on:
  "fst (checkTableCollision rnd_half
          (game_at (Vector3 0 0.5 (- 8)) (Vector3 0 0.01 (- 0.1)) 10 4 True)) = Some BackWall
   \<and> playerScore (snd (checkTableCollision rnd_half
          (game_at (Vector3 0 0.5 (- 8)) (Vector3 0 0.01 (- 0.1)) 10 4 True))) = 11
   \<and> \<not> isGameOver (snd (checkTableCollision rnd_half
          (game_at (Vector3 0 0.5 (- 8)) (Vector3 0 0.01 (- 0.1)) 10 4 True)))
   \<and> isGameStarted (snd (checkTableCollision rnd_half
          (game_at (Vector3 0 0.5 (- 8)) (Vector3 0 0.01 (- 0.1)) 10 4 True)))
   \<and> ballPosition (snd (checkTableCollision rnd_half
          (game_at (Vector3 0 0.5 (- 8)) (Vector3 0 0.01 (- 0.1)) 10 4 True))) = Vector3 0 0.5 (- 3)"
  by (simp add: checkTableCollision_def Let_def bounce_height game_at_def)


section \<open>The net\<close>

lemma movingTowardsNet_iff: "movingTowardsNet b v \<longleftrightarrow> vz b * vz v < 0"
  by (auto simp add: movingTowardsNet_def mult_less_0_iff)

text \<open>For a ball in free flight inside the hall (no table, floor, wall or ceiling contact)
  and away from both paddles, a call of \<^verbatim>\<open>checkCollisions\<close> is its net block.\<close>

lemma checkCollisions_net_only:
  assumes b: "physBall s = Some b"
    and t: "\<not> onTable b (ballVelocity s)"
    and f: "\<not> (vy b - ballRadius < - 1 \<and> vy (ballVelocity s) < 0)"
    and x: "\<bar>vx b\<bar> + ballRadius \<le> 10" and z: "\<bar>vz b\<bar> + ballRadius \<le> 10"
    and y: "vy b + ballRadius \<le> 9"
    and p1: "noContact pad (snd (netCollision s))"
    and p2: "noContact aiPad (snd (netCollision s))"
  shows "checkCollisions rnd pad aiPad f1 f2 f3 (w, s)
           = (fst (netCollision s), pad, aiPad, w, snd (netCollision s))"
proof -
  obtain c s4 where n: "netCollision s = (c, s4)" by (cases "netCollision s")
  have tc: "tableCollision s = (False, s)"
    using b t by (simp add: tableCollision_def)
  have fl: "floorCollision rnd f1 f2 (w, s) = (False, w, s)"
    using b f by (auto simp add: floorCollision_def)
  have wl: "wallCollision s = (False, s)"
    using b x z y
    by (auto simp add: wallCollision_def hitsSideWall_def hitsEndWall_def hitsCeiling_def
        Let_def)
  have q1: "paddleCollision True f3 pad (w, s4) = (False, pad, w, s4)"
    using paddleCollision_none [of pad "(w, s4)"] p1 by (simp add: n)
  have q2: "paddleCollision False f3 aiPad (w, s4) = (False, aiPad, w, s4)"
    using paddleCollision_none [of aiPad "(w, s4)"] p2 by (simp add: n)
  show ?thesis
    using b by (simp add: checkCollisions_def tc fl wl n q1 q2)
qed

text \<open>
  C4, as stated, fails in the game loop. The computer has returned the ball; it is past the
  net plane on the player's side (\<open>z = 0.05\<close>), below \<open>y = 0\<close>, and flies on towards
  the player (\<open>z\<close> velocity \<open>0.1\<close>), away from the net: \<^verbatim>\<open>checkTableCollision\<close>
  registers a net fault and the player's score goes from 3 to 4.
\<close>

theorem net_fault_for_ball_leaving_the_net:
  "vz (ballPosition (game_at (Vector3 0 (- 0.1) 0.05) (Vector3 0 0.01 0.1) 3 5 False)) > 0
   \<and> vz (ballDirection (game_at (Vector3 0 (- 0.1) 0.05) (Vector3 0 0.01 0.1) 3 5 False)) > 0
   \<and> fst (checkTableCollision rnd_half
            (game_at (Vector3 0 (- 0.1) 0.05) (Vector3 0 0.01 0.1) 3 5 False)) = Some NetFault
   \<and> playerScore (snd (checkTableCollision rnd_half
            (game_at (Vector3 0 (- 0.1) 0.05) (Vector3 0 0.01 0.1) 3 5 False))) = 4"
  by (simp add: checkTableCollision_def Let_def bounce_height endOfPoint_def gameOver_def
      game_at_def)

text \<open>
  C4, amended. In the physics module the net block registers a contact only when the ball
  is in the net's slab (\<open>\<bar>z\<bar> < 0.02\<close>), within its length (\<open>\<bar>x\<bar> < 0.7625\<close>), below its
  top edge, and position and velocity have opposite signs in \<open>z\<close>; a ball above the top
  edge, or one whose \<open>z\<close> velocity does not point across the plane, leaves the state as
  it is. In the game loop a net fault is registered only for \<open>\<bar>z\<bar> < 0.1\<close> and
  \<open>y < 0\<close>, so never for a ball at or above \<open>y = 0\<close>; the direction of flight is not
  tested there.
\<close>

theorem net_contact_conditions:
  "(fst (netCollision s) \<longrightarrow>
      (\<exists>b. physBall s = Some b \<and> \<bar>vz b\<bar> < 0.02 \<and> \<bar>vx b\<bar> < 0.7625
           \<and> vy b - ballRadius < 0.2025 \<and> vz b * vz (ballVelocity s) < 0))
   \<and> (physBall s' = Some b'
        \<and> (vy b' - ballRadius \<ge> 0.2025 \<or> vz b' * vz (ballVelocity s') \<ge> 0)
        \<longrightarrow> netCollision s' = (False, s'))
   \<and> (fst (checkTableCollision rnd g) = Some NetFault
        \<longrightarrow> \<bar>vz (ballPosition g)\<bar> < 0.1 \<and> vy (ballPosition g) < 0)"
proof (intro conjI impI)
  assume "fst (netCollision s)"
  then show "\<exists>b. physBall s = Some b \<and> \<bar>vz b\<bar> < 0.02 \<and> \<bar>vx b\<bar> < 0.7625
           \<and> vy b - ballRadius < 0.2025 \<and> vz b * vz (ballVelocity s) < 0"
    by (auto simp add: netCollision_def atNet_def movingTowardsNet_iff
        split: option.splits if_splits)
next
  assume "physBall s' = Some b'
        \<and> (vy b' - ballRadius \<ge> 0.2025 \<or> vz b' * vz (ballVelocity s') \<ge> 0)"
  then show "netCollision s' = (False, s')"
    by (auto simp add: netCollision_def atNet_def movingTowardsNet_iff)
next
  assume a: "fst (checkTableCollision rnd g) = Some NetFault"
  then show "\<bar>vz (ballPosition g)\<bar> < 0.1"
    by (auto simp add: checkTableCollision_def Let_def split: if_splits)
  from a show "vy (ballPosition g) < 0"
    by (auto simp add: checkTableCollision_def Let_def bounce_height split: if_splits)
qed

text \<open>The amended C4 at three inputs: a ball crossing at net height (contact), the same
  ball at \<open>y = 0.5\<close> (none), and a net fault of the game loop.\<close>

theorem net_contact_conditions_witness:
  "fst (netCollision (physics_at (Vector3 0 0.1 0.01) (Vector3 0 0 (- 2))))
   \<and> netCollision (physics_at (Vector3 0 0.5 0.01) (Vector3 0 0 (- 2)))
       = (False, physics_at (Vector3 0 0.5 0.01) (Vector3 0 0 (- 2)))
   \<and> fst (checkTableCollision rnd_half
            (game_at (Vector3 0 (- 0.2) (- 0.05)) (Vector3 0 0.01 0.1) 3 5 False)) = Some NetFault
   \<and> \<bar>vz (ballPosition (game_at (Vector3 0 (- 0.2) (- 0.05)) (Vector3 0 0.01 0.1) 3 5 False))\<bar>
       < 0.1"
proof -
  have h1: "fst (netCollision (physics_at (Vector3 0 0.1 0.01) (Vector3 0 0 (- 2))))"
    by (simp add: netCollision_def atNet_def movingTowardsNet_def physics_at_def
        ballRadius_def)
  have h2: "physBall (physics_at (Vector3 0 0.5 0.01) (Vector3 0 0 (- 2)))
              = Some (Vector3 0 0.5 0.01)
     \<and> (vy (Vector3 0 0.5 0.01) - ballRadius \<ge> 0.2025
        \<or> vz (Vector3 0 0.5 0.01)
            * vz (ballVelocity (physics_at (Vector3 0 0.5 0.01) (Vector3 0 0 (- 2)))) \<ge> 0)"
    by (simp add: physics_at_def ballRadius_def)
  have h3: "fst (checkTableCollision rnd_half
                   (game_at (Vector3 0 (- 0.2) (- 0.05)) (Vector3 0 0.01 0.1) 3 5 False))
            = Some NetFault"
    by (simp add: checkTableCollision_def Let_def bounce_height game_at_def)
  from net_contact_conditions [of "physics_at (Vector3 0 0.1 0.01) (Vector3 0 0 (- 2))"
      "physics_at (Vector3 0 0.5 0.01) (Vector3 0 0 (- 2))" "Vector3 0 0.5 0.01" rnd_half
      "game_at (Vector3 0 (- 0.2) (- 0.05)) (Vector3 0 0.01 0.1) 3 5 False"] h1 h2 h3
  show ?thesis by blast
qed


section \<open>Bounces on planes\<close>

text \<open>A call of \<^verbatim>\<open>checkCollisions\<close> in which the ball is not reset from the floor and
  touches neither paddle: \<open>b1\<close> is the ball position after the table block.\<close>

lemma checkCollisions_planes_only:
  assumes b: "physBall s = Some b" and b1: "physBall (snd (tableCollision s)) = Some b1"
    and f: "\<not> (vy b - ballRadius < - 1 \<and> vy (ballVelocity s) < 0 \<and> \<not> onTable b (ballVelocity s))"
    and p1: "noContact pad (snd (tableCollision s))"
    and p2: "noContact aiPad (snd (tableCollision s))"
  shows "checkCollisions rnd pad aiPad f1 f2 f3 (w, s) =
    (onTable b (ballVelocity s) \<or> hitsSideWall b (ballVelocity s)
       \<or> hitsEndWall b (ballVelocity s) \<or> hitsCeiling b (ballVelocity s)
       \<or> (atNet b1 \<and> movingTowardsNet b (ballVelocity s)),
     pad, aiPad, w,
     \<lparr>physBall = Some b1,
      ballVelocity =
        Vector3 (if hitsSideWall b (ballVelocity s) then - RESTITUTION * vx (ballVelocity s)
                 else vx (ballVelocity s))
                (if onTable b (ballVelocity s) \<or> hitsCeiling b (ballVelocity s)
                 then - RESTITUTION * vy (ballVelocity s) else vy (ballVelocity s))
                (if hitsEndWall b (ballVelocity s)
                    \<or> (atNet b1 \<and> movingTowardsNet b (ballVelocity s))
                 then - RESTITUTION * vz (ballVelocity s) else vz (ballVelocity s))\<rparr>)"
proof -
  define v where "v = ballVelocity s"
  define s1 where "s1 = snd (tableCollision s)"
  define v1 where "v1 = Vector3 (vx v) (if onTable b v then - vy v * RESTITUTION else vy v) (vz v)"
  have tc: "tableCollision s = (onTable b v, s1)"
    unfolding s1_def v_def using b by (simp add: tableCollision_def)
  have pb1: "physBall s1 = Some b1" using b1 by (simp add: s1_def)
  have pos: "b1 = (if onTable b v then Vector3 (vx b) (0.05 + ballRadius) (vz b) else b)"
    using b b1 unfolding v_def by (simp add: tableCollision_def split: if_splits)
  have vel1: "ballVelocity s1 = v1"
    unfolding s1_def v1_def v_def using b by (cases "ballVelocity s") (simp add: tableCollision_def)
  have s1_eq: "s1 = \<lparr>physBall = Some b1, ballVelocity = v1\<rparr>"
    using pb1 vel1 by (cases s1) simp
  have fl: "floorCollision rnd f1 f2 (w, s1) = (False, w, s1)"
  proof (cases "onTable b v")
    case True
    then have "\<not> vy v1 < 0" by (simp add: v1_def onTable_def RESTITUTION_def)
    then show ?thesis by (simp add: floorCollision_def pb1 vel1)
  next
    case False
    then have "\<not> (vy b1 - ballRadius < - 1 \<and> vy v1 < 0)"
      using f by (simp add: pos v1_def v_def)
    then show ?thesis by (auto simp add: floorCollision_def pb1 vel1)
  qed
  have side: "hitsSideWall b1 v1 = hitsSideWall b v"
    by (simp add: hitsSideWall_def pos v1_def)
  have endw: "hitsEndWall b1 v1 = hitsEndWall b v"
    by (simp add: hitsEndWall_def pos v1_def)
  have ceil: "hitsCeiling b1 v1 = (\<not> onTable b v \<and> hitsCeiling b v)"
    by (simp add: hitsCeiling_def pos v1_def ballRadius_def)
  have excl: "\<not> (onTable b v \<and> hitsCeiling b v)"
    by (auto simp add: onTable_def hitsCeiling_def)
  define v3 where "v3 = Vector3 (if hitsSideWall b v then - vx v * RESTITUTION else vx v)
      (if onTable b v \<or> hitsCeiling b v then - vy v * RESTITUTION else vy v)
      (if hitsEndWall b v then - vz v * RESTITUTION else vz v)"
  define s3 where "s3 = \<lparr>physBall = Some b1, ballVelocity = v3\<rparr>"
  have wl: "wallCollision s1
      = (hitsSideWall b v \<or> hitsEndWall b v \<or> (\<not> onTable b v \<and> hitsCeiling b v), s3)"
    using wallCollision_result [OF pb1] excl
    unfolding vel1 side endw ceil s3_def v3_def
    by (auto simp add: v1_def s1_eq)
  have pb3: "physBall s3 = Some b1" and vel3: "ballVelocity s3 = v3"
    by (simp_all add: s3_def)
  have far: "\<not> atNet b1" if "hitsEndWall b v"
    using that by (auto simp add: atNet_def hitsEndWall_def pos ballRadius_def split: if_splits)
  have mv: "(atNet b1 \<and> movingTowardsNet b1 v3) = (atNet b1 \<and> movingTowardsNet b v)"
    using far by (auto simp add: movingTowardsNet_def pos v3_def)
  define v4 where "v4 = Vector3 (vx v3) (vy v3)
      (if atNet b1 \<and> movingTowardsNet b v then - vz v3 * RESTITUTION else vz v3)"
  define s4 where "s4 = \<lparr>physBall = Some b1, ballVelocity = v4\<rparr>"
  have nt: "netCollision s3 = (atNet b1 \<and> movingTowardsNet b v, s4)"
  proof (cases "atNet b1 \<and> movingTowardsNet b v")
    case True
    then have "atNet b1 \<and> movingTowardsNet b1 v3" using mv by simp
    then show ?thesis
      using True by (simp add: netCollision_def pb3 vel3) (simp add: s3_def s4_def v4_def)
  next
    case False
    then have "\<not> (atNet b1 \<and> movingTowardsNet b1 v3)" using mv by simp
    moreover have "v4 = v3" using False by (cases v3) (auto simp add: v4_def)
    ultimately show ?thesis
      using False by (simp add: netCollision_def pb3 vel3) (simp add: s3_def s4_def)
  qed
  have same: "snd (tableCollision s) = s1" by (simp add: s1_def)
  have n4: "noContact pad s4" "noContact aiPad s4"
    using p1 p2 unfolding same
    by (simp_all add: noContact_def checkPaddleCollision_physics_def s4_def s1_eq
        split: option.splits)
  have q1: "paddleCollision True f3 pad (w, s4) = (False, pad, w, s4)"
    using paddleCollision_none [of pad "(w, s4)"] n4(1) by simp
  have q2: "paddleCollision False f3 aiPad (w, s4) = (False, aiPad, w, s4)"
    using paddleCollision_none [of aiPad "(w, s4)"] n4(2) by simp
  have run: "checkCollisions rnd pad aiPad f1 f2 f3 (w, s) =
      (onTable b v \<or> hitsSideWall b v \<or> hitsEndWall b v \<or> (\<not> onTable b v \<and> hitsCeiling b v)
         \<or> (atNet b1 \<and> movingTowardsNet b v), pad, aiPad, w, s4)"
    using b by (simp add: checkCollisions_def tc fl wl nt q1 q2)
  have v4_eq: "v4 = Vector3 (if hitsSideWall b v then - RESTITUTION * vx v else vx v)
      (if onTable b v \<or> hitsCeiling b v then - RESTITUTION * vy v else vy v)
      (if hitsEndWall b v \<or> (atNet b1 \<and> movingTowardsNet b v)
       then - RESTITUTION * vz v else vz v)"
    using far by (auto simp add: v4_def v3_def)
  show ?thesis
    unfolding run s4_def v4_eq v_def [symmetric] using excl by auto
qed

text \<open>The net branch of the game loop reverses the \<open>z\<close> direction too, but it ends the
  point: the serve that follows replaces the direction, and the reversed one is seen only
  when the point was the last of the match.\<close>

lemma net_fault_reverses_direction_at_match_end:
  assumes "fst (checkTableCollision rnd g) = Some NetFault"
    "isGameOver (snd (checkTableCollision rnd g))" "\<not> isGameOver g"
  shows "vz (ballDirection (snd (checkTableCollision rnd g)))
           = - vz (ballDirection (sideBounce (tableBounce g)))"
  using assms
  by (auto simp add: checkTableCollision_def Let_def endOfPoint_def gameOver_def
      split: if_splits)

text \<open>
  C8. Every plane on which the ball bounces is perpendicular to a coordinate axis, so the
  normal component of the velocity is the coordinate along that axis and the tangential part
  is the other two. In \<^verbatim>\<open>checkCollisions\<close> of the physics module the planes are the table
  and the ceiling (normal along \<open>y\<close>), the left and right walls (\<open>x\<close>), the front and
  back walls and the net (\<open>z\<close>); the restitution is \<open>RESTITUTION = 0.95\<close> for all
  of them. In a call that does not reset the ball from the floor and in which no paddle is
  touched, each component of the velocity after the call is \<open>- RESTITUTION\<close> times the
  incident one when a plane with that normal is hit, and the incident one otherwise. In
  \<^verbatim>\<open>checkTableCollision\<close> of the game loop the planes are the table (\<open>y\<close>,
  restitution \<open>0.8\<close>) and the side boundaries at \<open>\<bar>x\<bar> = 2\<close> (\<open>x\<close>, restitution
  \<open>1\<close>), and the same holds of a call that ends no point.
\<close>

theorem plane_bounces_reflect_normal_component:
  "(physBall s = Some b \<and> physBall (snd (tableCollision s)) = Some b1
      \<and> \<not> (vy b - ballRadius < - 1 \<and> vy (ballVelocity s) < 0 \<and> \<not> onTable b (ballVelocity s))
      \<and> noContact pad (snd (tableCollision s)) \<and> noContact aiPad (snd (tableCollision s))
    \<longrightarrow> (\<exists>s'. checkCollisions rnd pad aiPad f1 f2 f3 (w, s)
                 = (onTable b (ballVelocity s) \<or> hitsSideWall b (ballVelocity s)
                      \<or> hitsEndWall b (ballVelocity s) \<or> hitsCeiling b (ballVelocity s)
                      \<or> (atNet b1 \<and> movingTowardsNet b (ballVelocity s)),
                    pad, aiPad, w, s')
            \<and> vx (ballVelocity s')
                = (if hitsSideWall b (ballVelocity s) then - RESTITUTION * vx (ballVelocity s)
                   else vx (ballVelocity s))
            \<and> vy (ballVelocity s')
                = (if onTable b (ballVelocity s) \<or> hitsCeiling b (ballVelocity s)
                   then - RESTITUTION * vy (ballVelocity s) else vy (ballVelocity s))
            \<and> vz (ballVelocity s')
                = (if hitsEndWall b (ballVelocity s)
                      \<or> (atNet b1 \<and> movingTowardsNet b (ballVelocity s))
                   then - RESTITUTION * vz (ballVelocity s) else vz (ballVelocity s))))
   \<and> (fst (checkTableCollision rnd' g) = None
    \<longrightarrow> (\<exists>g'. checkTableCollision rnd' g = (None, g')
            \<and> vx (ballDirection g')
                = (if \<bar>vx (ballPosition g)\<bar> > 2 then - 1 * vx (ballDirection g)
                   else vx (ballDirection g))
            \<and> vy (ballDirection g')
                = (if vy (ballPosition g) < - 0.4 \<and> vy (ballDirection g) < 0
                   then - 0.8 * vy (ballDirection g) else vy (ballDirection g))
            \<and> vz (ballDirection g') = vz (ballDirection g)))"
proof (intro conjI impI)
  assume a: "physBall s = Some b \<and> physBall (snd (tableCollision s)) = Some b1
      \<and> \<not> (vy b - ballRadius < - 1 \<and> vy (ballVelocity s) < 0 \<and> \<not> onTable b (ballVelocity s))
      \<and> noContact pad (snd (tableCollision s)) \<and> noContact aiPad (snd (tableCollision s))"
  then have h: "physBall s = Some b" "physBall (snd (tableCollision s)) = Some b1"
    "\<not> (vy b - ballRadius < - 1 \<and> vy (ballVelocity s) < 0 \<and> \<not> onTable b (ballVelocity s))"
    "noContact pad (snd (tableCollision s))" "noContact aiPad (snd (tableCollision s))"
    by blast+
  show "\<exists>s'. checkCollisions rnd pad aiPad f1 f2 f3 (w, s)
                 = (onTable b (ballVelocity s) \<or> hitsSideWall b (ballVelocity s)
                      \<or> hitsEndWall b (ballVelocity s) \<or> hitsCeiling b (ballVelocity s)
                      \<or> (atNet b1 \<and> movingTowardsNet b (ballVelocity s)),
                    pad, aiPad, w, s')
            \<and> vx (ballVelocity s')
                = (if hitsSideWall b (ballVelocity s) then - RESTITUTION * vx (ballVelocity s)
                   else vx (ballVelocity s))
            \<and> vy (ballVelocity s')
                = (if onTable b (ballVelocity s) \<or> hitsCeiling b (ballVelocity s)
                   then - RESTITUTION * vy (ballVelocity s) else vy (ballVelocity s))
            \<and> vz (ballVelocity s')
                = (if hitsEndWall b (ballVelocity s)
                      \<or> (atNet b1 \<and> movingTowardsNet b (ballVelocity s))
                   then - RESTITUTION * vz (ballVelocity s) else vz (ballVelocity s))"
    unfolding checkCollisions_planes_only [OF h] by simp
next
  assume a: "fst (checkTableCollision rnd' g) = None"
  then have run: "checkTableCollision rnd' g = (None, sideBounce (tableBounce g))"
    by (auto simp add: checkTableCollision_def Let_def split: if_splits)
  show "\<exists>g'. checkTableCollision rnd' g = (None, g')
            \<and> vx (ballDirection g')
                = (if \<bar>vx (ballPosition g)\<bar> > 2 then - 1 * vx (ballDirection g)
                   else vx (ballDirection g))
            \<and> vy (ballDirection g')
                = (if vy (ballPosition g) < - 0.4 \<and> vy (ballDirection g) < 0
                   then - 0.8 * vy (ballDirection g) else vy (ballDirection g))
            \<and> vz (ballDirection g') = vz (ballDirection g)"
    unfolding run by (simp add: sideBounce_def tableBounce_def)
qed

text \<open>C8 at seven inputs, between two paddles at \<open>z = 1.2\<close> and \<open>z = - 1.2\<close>: in the
  physics module a ball at the right wall, one at the ceiling, one at the back wall, one
  crossing the net and one landing on the table; in the game loop a ball landing at table
  height and one beyond the side boundary. In each the component along the normal of the
  plane is reversed and scaled by the restitution, and the other two are as before.\<close>

theorem plane_bounces_reflect_normal_component_witness:
  "(\<exists>s'. checkCollisions rnd_half (Some (racket_at (Vector3 0 0.3 1.2)))
             (Some (racket_at (Vector3 0 0.3 (- 1.2)))) None None None
             ((), physics_at (Vector3 9.99 1 0.5) (Vector3 2 1 1))
           = (True, Some (racket_at (Vector3 0 0.3 1.2)),
              Some (racket_at (Vector3 0 0.3 (- 1.2))), (), s')
         \<and> ballVelocity s' = Vector3 (- 1.9) 1 1)
   \<and> (\<exists>s'. checkCollisions rnd_half (Some (racket_at (Vector3 0 0.3 1.2)))
             (Some (racket_at (Vector3 0 0.3 (- 1.2)))) None None None
             ((), physics_at (Vector3 0.5 8.99 0.5) (Vector3 0.5 3 1))
           = (True, Some (racket_at (Vector3 0 0.3 1.2)),
              Some (racket_at (Vector3 0 0.3 (- 1.2))), (), s')
         \<and> ballVelocity s' = Vector3 0.5 (- 2.85) 1)
   \<and> (\<exists>s'. checkCollisions rnd_half (Some (racket_at (Vector3 0 0.3 1.2)))
             (Some (racket_at (Vector3 0 0.3 (- 1.2)))) None None None
             ((), physics_at (Vector3 0.5 1 (- 9.99)) (Vector3 0.5 1 (- 2)))
           = (True, Some (racket_at (Vector3 0 0.3 1.2)),
              Some (racket_at (Vector3 0 0.3 (- 1.2))), (), s')
         \<and> ballVelocity s' = Vector3 0.5 1 1.9)
   \<and> (\<exists>s'. checkCollisions rnd_half (Some (racket_at (Vector3 0 0.3 1.2)))
             (Some (racket_at (Vector3 0 0.3 (- 1.2)))) None None None
             ((), physics_at (Vector3 0.2 0.1 0.01) (Vector3 0.5 0.2 (- 2)))
           = (True, Some (racket_at (Vector3 0 0.3 1.2)),
              Some (racket_at (Vector3 0 0.3 (- 1.2))), (), s')
         \<and> ballVelocity s' = Vector3 0.5 0.2 1.9)
   \<and> (\<exists>s'. checkCollisions rnd_half (Some (racket_at (Vector3 0 0.3 1.2)))
             (Some (racket_at (Vector3 0 0.3 (- 1.2)))) None None None
             ((), physics_at (Vector3 0.5 0.06 0.4) (Vector3 1 (- 2) 3))
           = (True, Some (racket_at (Vector3 0 0.3 1.2)),
              Some (racket_at (Vector3 0 0.3 (- 1.2))), (), s')
         \<and> ballVelocity s' = Vector3 1 1.9 3)
   \<and> (\<exists>g'. checkTableCollision rnd_half
              (game_at (Vector3 1 (- 0.45) 2) (Vector3 0.01 (- 0.05) 0.1) 3 5 True) = (None, g')
          \<and> ballDirection g' = Vector3 0.01 0.04 0.1)
   \<and> (\<exists>g'. checkTableCollision rnd_half
              (game_at (Vector3 2.05 0.5 1) (Vector3 0.05 0.02 (- 0.1)) 3 5 True) = (None, g')
          \<and> ballDirection g' = Vector3 (- 0.05) 0.02 (- 0.1))"
proof -
  let ?p = "Some (racket_at (Vector3 0 0.3 1.2))"
  let ?q = "Some (racket_at (Vector3 0 0.3 (- 1.2)))"
  have phys: "\<exists>s'. checkCollisions rnd_half ?p ?q None None None ((), physics_at b v)
                 = (True, ?p, ?q, (), s') \<and> ballVelocity s' = v'"
    if h: "physBall (physics_at b v) = Some b
         \<and> physBall (snd (tableCollision (physics_at b v))) = Some b1
         \<and> \<not> (vy b - ballRadius < - 1 \<and> vy (ballVelocity (physics_at b v)) < 0
              \<and> \<not> onTable b (ballVelocity (physics_at b v)))
         \<and> noContact ?p (snd (tableCollision (physics_at b v)))
         \<and> noContact ?q (snd (tableCollision (physics_at b v)))"
      and c: "onTable b v \<or> hitsSideWall b v \<or> hitsEndWall b v \<or> hitsCeiling b v
              \<or> (atNet b1 \<and> movingTowardsNet b v)"
      and x: "vx v' = (if hitsSideWall b v then - RESTITUTION * vx v else vx v)"
      and y: "vy v' = (if onTable b v \<or> hitsCeiling b v then - RESTITUTION * vy v else vy v)"
      and z: "vz v' = (if hitsEndWall b v \<or> (atNet b1 \<and> movingTowardsNet b v)
                       then - RESTITUTION * vz v else vz v)"
    for b v b1 v'
  proof -
    have bv: "ballVelocity (physics_at b v) = v" by (simp add: physics_at_def)
    from plane_bounces_reflect_normal_component [where s = "physics_at b v" and b = b
        and ?b1.0 = b1 and pad = ?p and aiPad = ?q and rnd = rnd_half and ?f1.0 = None
        and ?f2.0 = None and ?f3.0 = None and w = "()", THEN conjunct1] h
    obtain s' where s': "checkCollisions rnd_half ?p ?q None None None ((), physics_at b v)
          = (onTable b v \<or> hitsSideWall b v \<or> hitsEndWall b v \<or> hitsCeiling b v
               \<or> (atNet b1 \<and> movingTowardsNet b v), ?p, ?q, (), s')"
      "vx (ballVelocity s') = (if hitsSideWall b v then - RESTITUTION * vx v else vx v)"
      "vy (ballVelocity s')
         = (if onTable b v \<or> hitsCeiling b v then - RESTITUTION * vy v else vy v)"
      "vz (ballVelocity s')
         = (if hitsEndWall b v \<or> (atNet b1 \<and> movingTowardsNet b v)
            then - RESTITUTION * vz v else vz v)"
      unfolding bv by blast
    have "ballVelocity s' = v'"
      using s'(2,3,4) x y z by (cases "ballVelocity s'"; cases v') simp
    moreover have "checkCollisions rnd_half ?p ?q None None None ((), physics_at b v)
          = (True, ?p, ?q, (), s')"
      using s'(1) c by simp
    ultimately show ?thesis by blast
  qed
  have loop: "\<exists>g'. checkTableCollision rnd_half g = (None, g') \<and> ballDirection g' = d'"
    if h: "fst (checkTableCollision rnd_half g) = None"
      and x: "vx d' = (if \<bar>vx (ballPosition g)\<bar> > 2 then - 1 * vx (ballDirection g)
                       else vx (ballDirection g))"
      and y: "vy d' = (if vy (ballPosition g) < - 0.4 \<and> vy (ballDirection g) < 0
                       then - 0.8 * vy (ballDirection g) else vy (ballDirection g))"
      and z: "vz d' = vz (ballDirection g)"
    for g d'
  proof -
    from plane_bounces_reflect_normal_component [where rnd' = rnd_half and g = g,
        THEN conjunct2] h
    obtain g' where g': "checkTableCollision rnd_half g = (None, g')"
      "vx (ballDirection g') = (if \<bar>vx (ballPosition g)\<bar> > 2 then - 1 * vx (ballDirection g)
                       else vx (ballDirection g))"
      "vy (ballDirection g') = (if vy (ballPosition g) < - 0.4 \<and> vy (ballDirection g) < 0
                       then - 0.8 * vy (ballDirection g) else vy (ballDirection g))"
      "vz (ballDirection g') = vz (ballDirection g)"
      by blast
    have "ballDirection g' = d'"
      using g'(2,3,4) x y z by (cases "ballDirection g'"; cases d') simp
    then show ?thesis using g'(1) by blast
  qed
  note defs = physics_at_def tableCollision_def onTable_def hitsSideWall_def hitsEndWall_def
    hitsCeiling_def atNet_def movingTowardsNet_def noContact_def
    checkPaddleCollision_physics_def racket_at_def ballRadius_def RESTITUTION_def Let_def
  have a: "\<exists>s'. checkCollisions rnd_half ?p ?q None None None
             ((), physics_at (Vector3 9.99 1 0.5) (Vector3 2 1 1)) = (True, ?p, ?q, (), s')
         \<and> ballVelocity s' = Vector3 (- 1.9) 1 1"
    by (rule phys [where ?b1.0 = "Vector3 9.99 1 0.5"]) (simp_all add: defs)
  have b: "\<exists>s'. checkCollisions rnd_half ?p ?q None None None
             ((), physics_at (Vector3 0.5 8.99 0.5) (Vector3 0.5 3 1)) = (True, ?p, ?q, (), s')
         \<and> ballVelocity s' = Vector3 0.5 (- 2.85) 1"
    by (rule phys [where ?b1.0 = "Vector3 0.5 8.99 0.5"]) (simp_all add: defs)
  have c: "\<exists>s'. checkCollisions rnd_half ?p ?q None None None
             ((), physics_at (Vector3 0.5 1 (- 9.99)) (Vector3 0.5 1 (- 2)))
           = (True, ?p, ?q, (), s')
         \<and> ballVelocity s' = Vector3 0.5 1 1.9"
    by (rule phys [where ?b1.0 = "Vector3 0.5 1 (- 9.99)"]) (simp_all add: defs)
  have d: "\<exists>s'. checkCollisions rnd_half ?p ?q None None None
             ((), physics_at (Vector3 0.2 0.1 0.01) (Vector3 0.5 0.2 (- 2)))
           = (True, ?p, ?q, (), s')
         \<and> ballVelocity s' = Vector3 0.5 0.2 1.9"
    by (rule phys [where ?b1.0 = "Vector3 0.2 0.1 0.01"]) (simp_all add: defs)
  have e: "\<exists>s'. checkCollisions rnd_half ?p ?q None None None
             ((), physics_at (Vector3 0.5 0.06 0.4) (Vector3 1 (- 2) 3))
           = (True, ?p, ?q, (), s')
         \<and> ballVelocity s' = Vector3 1 1.9 3"
    by (rule phys [where ?b1.0 = "Vector3 0.5 (0.05 + ballRadius) 0.4"]) (simp_all add: defs)
  have f: "\<exists>g'. checkTableCollision rnd_half
              (game_at (Vector3 1 (- 0.45) 2) (Vector3 0.01 (- 0.05) 0.1) 3 5 True) = (None, g')
          \<and> ballDirection g' = Vector3 0.01 0.04 0.1"
    by (rule loop)
      (simp_all add: checkTableCollision_def Let_def bounce_height game_at_def)
  have g: "\<exists>g'. checkTableCollision rnd_half
              (game_at (Vector3 2.05 0.5 1) (Vector3 0.05 0.02 (- 0.1)) 3 5 True) = (None, g')
          \<and> ballDirection g' = Vector3 (- 0.05) 0.02 (- 0.1)"
    by (rule loop)
      (simp_all add: checkTableCollision_def Let_def bounce_height game_at_def)
  show ?thesis by (intro conjI a b c d e f g)
qed


section \<open>Paddle contacts\<close>

lemma length_v_nonneg: "0 \<le> length_v a"
  by (simp add: length_v_def)

lemma length_v_eq_0: "length_v a = 0 \<longleftrightarrow> a = Vector3 0 0 0"
proof (cases a)
  case (Vector3 x y z)
  have "x * x + y * y + z * z = 0 \<longleftrightarrow> x = 0 \<and> y = 0 \<and> z = 0"
    by (metis add_nonneg_eq_0_iff mult_eq_0_iff zero_le_square add_nonneg_nonneg)
  then show ?thesis using Vector3 by (simp add: length_v_def)
qed

lemma length_v_scale: "length_v (multiplyScalar a c) = \<bar>c\<bar> * length_v a"
proof -
  have "vx a * c * (vx a * c) + vy a * c * (vy a * c) + vz a * c * (vz a * c)
        = c\<^sup>2 * (vx a * vx a + vy a * vy a + vz a * vz a)"
    by (simp add: power2_eq_square algebra_simps)
  then show ?thesis
    by (simp add: length_v_def multiplyScalar_def real_sqrt_mult)
qed

lemma length_v_normalize: "a \<noteq> Vector3 0 0 0 \<Longrightarrow> length_v (normalize_v a) = 1"
  using length_v_nonneg [of a]
  by (simp add: normalize_v_def Let_def length_v_scale length_v_eq_0)

lemma length_v_rescaled:
  "a \<noteq> Vector3 0 0 0 \<Longrightarrow> 0 \<le> c \<Longrightarrow> length_v (multiplyScalar (normalize_v a) c) = c"
  by (simp add: length_v_scale length_v_normalize)

lemma rescaled_components:
  assumes "a \<noteq> Vector3 0 0 0" "0 < c"
  obtains k where "0 < k" "multiplyScalar (normalize_v a) c = multiplyScalar a k"
proof
  show "0 < c / length_v a"
    using assms length_v_nonneg [of a] by (simp add: length_v_eq_0 less_le)
  show "multiplyScalar (normalize_v a) c = multiplyScalar a (c / length_v a)"
    using assms by (simp add: normalize_v_def Let_def multiplyScalar_def length_v_eq_0)
qed

lemma ensureUp_up:
  assumes "0 < c"
  shows "0 < vy (ensureUp c b)"
proof -
  have nz: "Vector3 (vx b) 0.05 (vz b) \<noteq> Vector3 0 0 0" by simp
  obtain k where "0 < k"
    "multiplyScalar (normalize_v (Vector3 (vx b) 0.05 (vz b))) c
       = multiplyScalar (Vector3 (vx b) 0.05 (vz b)) k"
    using rescaled_components [OF nz assms] by blast
  then show ?thesis by (simp add: ensureUp_def multiplyScalar_def)
qed

lemma ensureUp_speed:
  assumes "0 < c" "length_v b = c \<or> vy b < 0.05"
  shows "length_v (ensureUp c b) = c"
proof -
  have nz: "Vector3 (vx b) 0.05 (vz b) \<noteq> Vector3 0 0 0" by simp
  show ?thesis
    using assms length_v_rescaled [OF nz, of c] by (auto simp add: ensureUp_def)
qed

lemma ensureForward_props:
  assumes "0 < c" "0 < vy b"
  shows "vz (ensureForward c b) \<le> 0" and "0 < vy (ensureForward c b)"
    and "length_v b = c \<Longrightarrow> length_v (ensureForward c b) = c"
proof -
  have nz: "Vector3 (vx b) (vy b) (vz b * - 1) \<noteq> Vector3 0 0 0" using assms(2) by auto
  obtain k where k: "0 < k"
    "multiplyScalar (normalize_v (Vector3 (vx b) (vy b) (vz b * - 1))) c
       = multiplyScalar (Vector3 (vx b) (vy b) (vz b * - 1)) k"
    using rescaled_components [OF nz assms(1)] by blast
  have eq: "ensureForward c b =
      (if vz b > 0 then multiplyScalar (Vector3 (vx b) (vy b) (vz b * - 1)) k else b)"
    unfolding ensureForward_def k(2) ..
  show "vz (ensureForward c b) \<le> 0"
    using k(1) by (simp add: eq multiplyScalar_def mult_le_0_iff)
  show "0 < vy (ensureForward c b)"
    using k(1) assms(2) by (simp add: eq multiplyScalar_def)
  show "length_v (ensureForward c b) = c" if "length_v b = c"
    using that length_v_rescaled [OF nz, of c] assms(1) by (simp add: ensureForward_def)
qed

lemma speed_pos: "0 < BALL_SPEED * speedMultiplier g"
  by (simp add: BALL_SPEED_def speedMultiplier_def clamp_def)

lemma raw_speed:
  "length_v (multiplyScalar (newDirection g) c) = \<bar>c\<bar> \<or> vy (multiplyScalar (newDirection g) c) < 0.05"
proof -
  obtain d where d: "newDirection g = normalize_v d"
    by (simp add: newDirection_def Let_def)
  show ?thesis
  proof (cases "d = Vector3 0 0 0")
    case True
    then have "newDirection g = Vector3 0 0 0"
      by (simp add: d normalize_v_def Let_def multiplyScalar_def)
    then show ?thesis by (simp add: multiplyScalar_def)
  next
    case False
    then show ?thesis by (simp add: d length_v_scale length_v_normalize)
  qed
qed

text \<open>
  C3, as stated, fails in the physics module. The ball comes down onto the player's upright
  paddle with velocity \<open>(0, - 1, 2)\<close>; the two are in contact, and after
  \<^verbatim>\<open>calculatePaddleRebound\<close>, and so after the whole of \<^verbatim>\<open>checkCollisions\<close>, the
  velocity is \<open>(0, - 0.95, - 1.9)\<close>: the ball still goes down. That function mirrors the
  velocity, adds the offset terms and applies the restitution; it has no floor and no
  test of the direction.
\<close>

theorem paddle_rebound_sends_ball_down:
  "checkPaddleCollision_physics (racket_at (Vector3 0 0.5 1.5))
     (physics_at (Vector3 0 0.5 1.49) (Vector3 0 (- 1) 2))
   \<and> ballVelocity (snd (calculatePaddleRebound (racket_at (Vector3 0 0.5 1.5))
                          (physics_at (Vector3 0 0.5 1.49) (Vector3 0 (- 1) 2))))
       = Vector3 0 (- 0.95) (- 1.9)
   \<and> ballVelocity (snd (snd (snd (snd
         (checkCollisions rnd_half (Some (racket_at (Vector3 0 0.5 1.5))) None None None None
            ((), physics_at (Vector3 0 0.5 1.49) (Vector3 0 (- 1) 2)))))))
       = Vector3 0 (- 0.95) (- 1.9)"
  by (simp add: checkCollisions_def tableCollision_def floorCollision_def wallCollision_def
      hitsSideWall_def hitsEndWall_def hitsCeiling_def
      netCollision_def paddleCollision_def onTable_def atNet_def
      checkPaddleCollision_physics_def calculatePaddleRebound_def racket_at_def physics_at_def
      Let_def applyAxisAngle_def add_def sub_def multiplyScalar_def cross_def dot_def
      ballRadius_def RESTITUTION_def)

text \<open>
  C3, amended, for the player's paddle in the game loop. After a contact in
  \<^verbatim>\<open>checkPaddleCollision\<close> the ball never flies back towards the player (\<open>z \<le> 0\<close>), its
  vertical component is positive, its speed is \<open>BALL_SPEED * speedMultiplier\<close>, and the
  player is recorded as the last hitter. A vertical component below \<open>0.05\<close> is set to
  \<open>0.05\<close> and a positive \<open>z\<close> is flipped, each followed by a rescaling to that
  speed.
\<close>

theorem paddle_hit_goes_up_and_forward:
  assumes "distanceTo (paddlePosition g) (ballPosition g) < 0.5" "vz (ballDirection g) > 0"
  shows "vz (ballDirection (checkPaddleCollision g)) \<le> 0
       \<and> vy (ballDirection (checkPaddleCollision g)) > 0
       \<and> length_v (ballDirection (checkPaddleCollision g)) = BALL_SPEED * speedMultiplier g
       \<and> lastHitByPlayer (checkPaddleCollision g)"
proof -
  define c where "c = BALL_SPEED * speedMultiplier g"
  define b where "b = ensureUp c (multiplyScalar (newDirection g) c)"
  have c: "0 < c" unfolding c_def by (rule speed_pos)
  have eq: "ballDirection (checkPaddleCollision g) = ensureForward c b"
    and hit: "lastHitByPlayer (checkPaddleCollision g)"
    using assms by (simp_all add: checkPaddleCollision_def Let_def b_def c_def)
  have "length_v (multiplyScalar (newDirection g) c) = c \<or> vy (multiplyScalar (newDirection g) c) < 0.05"
    using raw_speed [of g c] c by simp
  then have l: "length_v b = c" unfolding b_def by (rule ensureUp_speed [OF c])
  have u: "0 < vy b" unfolding b_def by (rule ensureUp_up [OF c])
  show ?thesis
    using ensureForward_props [OF c u] l hit by (simp add: eq c_def)
qed

text \<open>The amended C3 for a ball at the centre of the paddle that comes in slowly
  falling, with the mouse at rest: the speed is \<open>0.1 * 0.8\<close>.\<close>

theorem paddle_hit_goes_up_and_forward_witness:
  "distanceTo (paddlePosition (game_at (Vector3 0 0.5 1.5) (Vector3 0 (- 0.02) 0.1) 0 0 False))
              (ballPosition (game_at (Vector3 0 0.5 1.5) (Vector3 0 (- 0.02) 0.1) 0 0 False)) < 0.5
   \<and> vz (ballDirection (checkPaddleCollision (game_at (Vector3 0 0.5 1.5) (Vector3 0 (- 0.02) 0.1) 0 0 False))) \<le> 0
   \<and> vy (ballDirection (checkPaddleCollision (game_at (Vector3 0 0.5 1.5) (Vector3 0 (- 0.02) 0.1) 0 0 False))) > 0
   \<and> length_v (ballDirection (checkPaddleCollision (game_at (Vector3 0 0.5 1.5) (Vector3 0 (- 0.02) 0.1) 0 0 False))) = 0.08"
proof -
  have h1: "distanceTo (paddlePosition (game_at (Vector3 0 0.5 1.5) (Vector3 0 (- 0.02) 0.1) 0 0 False))
              (ballPosition (game_at (Vector3 0 0.5 1.5) (Vector3 0 (- 0.02) 0.1) 0 0 False)) < 0.5"
    by (simp add: game_at_def distanceTo_def sub_def length_v_def)
  have h2: "vz (ballDirection (game_at (Vector3 0 0.5 1.5) (Vector3 0 (- 0.02) 0.1) 0 0 False)) > 0"
    by (simp add: game_at_def)
  have sp: "BALL_SPEED * speedMultiplier (game_at (Vector3 0 0.5 1.5) (Vector3 0 (- 0.02) 0.1) 0 0 False) = 0.08"
    by (simp add: BALL_SPEED_def speedMultiplier_def clamp_def game_at_def)
  from paddle_hit_goes_up_and_forward [OF h1 h2] h1 sp show ?thesis by simp
qed


text \<open>The rescaling after the floor works against it: a vector of the nominal speed whose
  vertical component is smaller than \<open>0.05\<close> in magnitude gets longer when that component
  is set to \<open>0.05\<close>, so scaling it back to the speed leaves less than \<open>0.05\<close>.\<close>

lemma length_v_less:
  assumes "\<bar>y\<bar> < \<bar>y'\<bar>"
  shows "length_v (Vector3 x y z) < length_v (Vector3 x y' z)"
proof -
  have "\<bar>y\<bar> * \<bar>y\<bar> < \<bar>y'\<bar> * \<bar>y'\<bar>"
    using assms by (intro mult_strict_mono') simp_all
  then have "y * y < y' * y'" by simp
  then show ?thesis by (simp add: length_v_def)
qed

lemma ensureUp_ends_below_floor:
  assumes "0 < c" "length_v b = c" "\<bar>vy b\<bar> < 0.05"
  shows "vy (ensureUp c b) < 0.05"
proof -
  let ?u = "Vector3 (vx b) 0.05 (vz b)"
  have "length_v (Vector3 (vx b) (vy b) (vz b)) < length_v ?u"
    using assms(3) by (intro length_v_less) simp
  then have lt: "c < length_v ?u" using assms(2) by simp
  then have pos: "0 < length_v ?u" using assms(1) by simp
  have low: "vy b < 0.05" using assms(3) by simp
  have "ensureUp c b = multiplyScalar (normalize_v ?u) c"
    using low by (simp add: ensureUp_def)
  then have "vy (ensureUp c b) = 0.05 * (c / length_v ?u)"
    using pos by (simp add: normalize_v_def Let_def multiplyScalar_def)
  moreover have "c / length_v ?u < 1" using lt pos by simp
  ultimately show ?thesis by simp
qed

text \<open>So it is at the most ordinary contact, the ball at the centre of the upright paddle
  with the mouse at rest: the new direction is straight ahead, the speed \<open>0.08\<close>, and
  after both blocks the vertical component is below \<open>0.05\<close>.\<close>

lemma length_v_along_z: "length_v (Vector3 0 0 z) = \<bar>z\<bar>"
  by (simp add: length_v_def)

lemma newDirection_at_rest:
  "newDirection (game_at (Vector3 0 0.5 1.5) (Vector3 0 (- 0.02) 0.1) 0 0 False) = Vector3 0 0 (- 1)"
proof -
  have "normalize_v (Vector3 0 0 (- 1.16)) = Vector3 0 0 (- 1)"
    unfolding normalize_v_def length_v_along_z by (simp add: multiplyScalar_def)
  then show ?thesis
    by (simp add: newDirection_def game_at_def Let_def sub_def add_def multiplyScalar_def)
qed

lemma paddle_hit_at_rest_ends_below_floor:
  "vy (ballDirection (checkPaddleCollision
         (game_at (Vector3 0 0.5 1.5) (Vector3 0 (- 0.02) 0.1) 0 0 False))) < 0.05"
proof -
  define g where "g = game_at (Vector3 0 0.5 1.5) (Vector3 0 (- 0.02) 0.1) 0 0 False"
  define c where "c = BALL_SPEED * speedMultiplier g"
  have sp: "c = 0.08"
    by (simp add: c_def g_def BALL_SPEED_def speedMultiplier_def clamp_def game_at_def)
  have cpos: "0 < c" by (simp add: sp)
  have nd: "newDirection g = Vector3 0 0 (- 1)"
    unfolding g_def by (rule newDirection_at_rest)
  have hit: "distanceTo (paddlePosition g) (ballPosition g) < 0.5" "vz (ballDirection g) > 0"
    by (simp_all add: g_def game_at_def distanceTo_def sub_def length_v_def)
  define b where "b = ensureUp c (Vector3 0 0 (- c))"
  have "ballDirection (checkPaddleCollision g)
          = ensureForward c (ensureUp c (multiplyScalar (newDirection g) c))"
    using hit by (simp add: checkPaddleCollision_def Let_def c_def)
  then have eq: "ballDirection (checkPaddleCollision g) = ensureForward c b"
    by (simp add: nd multiplyScalar_def b_def)
  have low: "vy b < 0.05"
    unfolding b_def
    by (rule ensureUp_ends_below_floor) (simp_all add: length_v_along_z sp)
  obtain k where k: "0 < k"
    "multiplyScalar (normalize_v (Vector3 0 0.05 (- c))) c
       = multiplyScalar (Vector3 0 0.05 (- c)) k"
    using rescaled_components [of "Vector3 0 0.05 (- c)" c] cpos by auto
  have "ensureUp c (Vector3 0 0 (- c)) = multiplyScalar (Vector3 0 0.05 (- c)) k"
    using k(2) by (simp add: ensureUp_def)
  then have "vz b = - c * k"
    by (simp add: b_def multiplyScalar_def)
  then have "vz b \<le> 0"
    using k(1) cpos by (simp add: mult_le_0_iff)
  then have "ensureForward c b = b" by (simp add: ensureForward_def)
  then have "vy (ballDirection (checkPaddleCollision g)) < 0.05"
    using low by (simp add: eq)
  then show ?thesis unfolding g_def .
qed

section \<open>The AI's reaction time\<close>

lemma update_idle:
  assumes "state s = IDLE" "wired s" "approaching t"
  shows "\<exists>s'. update fadd (tickRandom t) (tickDelta t) (s\<lparr>ball := Some (tickBall t)\<rparr>) = Inr s'
     \<and> state s' = PREPARING \<and> reactionTimer s' = 0 \<and> config s' = config s \<and> wired s'"
  using assms
  by (auto simp add: update_def executeIdleState_def changeState_def andThen_def Let_def
      makeDecisions_def approaching_def wired_def split: option.splits)

text \<open>A frame in PREPARING with the ball approaching and the timer still short of the
  reaction time: the timer takes the frame time, and the paddle makes one homing step along
  \<open>x\<close>, onto the base position when it is within \<open>0.1\<close> of it, and otherwise
  towards it by three times the recovery speed times the frame time.\<close>

lemma update_preparing_wait:
  assumes "state s = PREPARING" "wired s" "approaching t"
    "config s ''reactionTime'' = Some rt" "config s ''recoverySpeed'' = Some rs"
    "fadd (reactionTimer s) (tickDelta t) < rt"
  shows "\<exists>s' p p'. update fadd (tickRandom t) (tickDelta t) (s\<lparr>ball := Some (tickBall t)\<rparr>) = Inr s'
     \<and> state s' = PREPARING \<and> reactionTimer s' = fadd (reactionTimer s) (tickDelta t)
     \<and> config s' = config s \<and> wired s'
     \<and> paddle s = Some p \<and> paddle s' = Some p' \<and> vy p' = vy p \<and> vz p' = vz p
     \<and> vx p' = (if \<bar>vx (basePosition s) - vx p\<bar> < 0.1 then vx (basePosition s)
                else vx p + sgn (vx (basePosition s) - vx p) * (rs * 3 * tickDelta t))"
  using assms
  by (auto simp add: update_def executePreparingState_def moveTowardsBasePosition_def
      changeState_def andThen_def Let_def makeDecisions_def approaching_def wired_def
      split: option.splits)

text \<open>The frame with which the timer reaches the reaction time: the AI goes to TRACKING and
  the paddle stays where it is.\<close>

lemma update_preparing_fire:
  assumes "state s = PREPARING" "wired s" "approaching t"
    "config s ''reactionTime'' = Some rt" "config s ''accuracy'' = Some a"
    "\<not> fadd (reactionTimer s) (tickDelta t) < rt"
  shows "\<exists>s'. update fadd (tickRandom t) (tickDelta t) (s\<lparr>ball := Some (tickBall t)\<rparr>) = Inr s'
     \<and> state s' = TRACKING \<and> reactionTimer s' = fadd (reactionTimer s) (tickDelta t)
     \<and> paddle s' = paddle s"
  using assms
  by (auto simp add: update_def executePreparingState_def calculateAnticipationPoint_def
      changeState_def andThen_def Let_def makeDecisions_def approaching_def wired_def
      split: option.splits)

lemma runTicks_append:
  "runTicks fadd (ts @ us) s = andThen (runTicks fadd ts s) (runTicks fadd us)"
  by (induction ts arbitrary: s) (auto simp add: andThen_def split: sum.splits)

lemma preparing_waits:
  assumes "state s = PREPARING" "wired s"
    "config s ''reactionTime'' = Some rt" "config s ''recoverySpeed'' = Some rs"
    "\<forall>t \<in> set ts. approaching t"
    "\<forall>k. 1 \<le> k \<and> k \<le> length ts \<longrightarrow>
       foldl fadd (reactionTimer s) (map tickDelta (take k ts)) < rt"
  shows "\<exists>s'. runTicks fadd ts s = Inr s' \<and> state s' = PREPARING
     \<and> reactionTimer s' = foldl fadd (reactionTimer s) (map tickDelta ts)
     \<and> config s' = config s \<and> wired s'"
  using assms
proof (induction ts arbitrary: s)
  case Nil
  then show ?case by simp
next
  case (Cons t ts)
  have "foldl fadd (reactionTimer s) (map tickDelta (take 1 (t # ts))) < rt"
    using Cons.prems(6) by (metis le_refl length_Cons le_add1 plus_1_eq_Suc)
  then have lt: "fadd (reactionTimer s) (tickDelta t) < rt" by simp
  have ap: "approaching t" using Cons.prems(5) by simp
  obtain s1 where s1:
    "update fadd (tickRandom t) (tickDelta t) (s\<lparr>ball := Some (tickBall t)\<rparr>) = Inr s1"
    "state s1 = PREPARING" "reactionTimer s1 = fadd (reactionTimer s) (tickDelta t)"
    "config s1 = config s" "wired s1"
    using update_preparing_wait [where fadd = fadd, OF Cons.prems(1,2) ap Cons.prems(3,4) lt] by blast
  have later: "\<forall>k. 1 \<le> k \<and> k \<le> length ts \<longrightarrow>
      foldl fadd (reactionTimer s1) (map tickDelta (take k ts)) < rt"
  proof (intro allI impI)
    fix k assume k: "1 \<le> k \<and> k \<le> length ts"
    then have "foldl fadd (reactionTimer s) (map tickDelta (take (Suc k) (t # ts))) < rt"
      using Cons.prems(6) by (metis Suc_le_mono le_SucI length_Cons)
    then show "foldl fadd (reactionTimer s1) (map tickDelta (take k ts)) < rt"
      by (simp add: s1(3))
  qed
  obtain s' where "runTicks fadd ts s1 = Inr s'" "state s' = PREPARING"
    "reactionTimer s' = foldl fadd (reactionTimer s1) (map tickDelta ts)"
    "config s' = config s1" "wired s'"
  proof -
    have "config s1 ''reactionTime'' = Some rt" "config s1 ''recoverySpeed'' = Some rs"
      "\<forall>t \<in> set ts. approaching t"
      using Cons.prems(3,4,5) s1(4) by simp_all
    from Cons.IH [OF s1(2) s1(5) this later] that show ?thesis by blast
  qed
  then show ?case by (simp add: s1 andThen_def)
qed

text \<open>
  C5. The AI is idle, with paddle and game state attached and a configuration that has a
  reaction time (and the recovery speed and accuracy that the motion code reads). In every
  frame of the run the ball approaches. The first frame \<open>t0\<close> takes the AI to PREPARING
  with the reaction timer at zero. As long as the timer, to which each later frame adds its
  frame time, stays below the reaction time, the AI is in PREPARING. The next frame
  \<open>t1\<close> leaves it in PREPARING when the timer is still below the reaction time, and
  then the paddle has made one homing step towards the base position (onto it when within
  \<open>0.1\<close>, otherwise by three times the recovery speed times the frame time, along
  \<open>x\<close> only); it takes it to TRACKING, the paddle unmoved, when the timer has reached
  the reaction time. This holds whatever the addition \<open>fadd\<close> of the timers is, so for
  the rounding addition of the engine.
\<close>

theorem reaction_time_gates_tracking:
  assumes "state s = IDLE" "wired s"
    "config s ''reactionTime'' = Some rt" "config s ''recoverySpeed'' = Some rs"
    "config s ''accuracy'' = Some a"
    "\<forall>t \<in> set (t0 # ts @ [t1]). approaching t"
    "\<forall>k. 1 \<le> k \<and> k \<le> length ts \<longrightarrow> accumulated fadd (take k ts) < rt"
  shows "\<exists>p q pp pq.
           runTicks fadd (t0 # ts) s = Inr p \<and> state p = PREPARING
         \<and> reactionTimer p = accumulated fadd ts
         \<and> runTicks fadd (t0 # ts @ [t1]) s = Inr q
         \<and> reactionTimer q = accumulated fadd (ts @ [t1])
         \<and> paddle p = Some pp \<and> paddle q = Some pq
         \<and> (if accumulated fadd (ts @ [t1]) < rt
            then state q = PREPARING \<and> vy pq = vy pp \<and> vz pq = vz pp
               \<and> vx pq = (if \<bar>vx (basePosition p) - vx pp\<bar> < 0.1 then vx (basePosition p)
                          else vx pp + sgn (vx (basePosition p) - vx pp)
                                       * (rs * 3 * tickDelta t1))
            else state q = TRACKING \<and> pq = pp)"
proof -
  have ap0: "approaching t0" and ap1: "approaching t1" using assms(6) by simp_all
  obtain s1 where s1:
    "update fadd (tickRandom t0) (tickDelta t0) (s\<lparr>ball := Some (tickBall t0)\<rparr>) = Inr s1"
    "state s1 = PREPARING" "reactionTimer s1 = 0" "config s1 = config s" "wired s1"
    using update_idle [OF assms(1,2) ap0] by blast
  have c1: "config s1 ''reactionTime'' = Some rt" "config s1 ''recoverySpeed'' = Some rs"
    "config s1 ''accuracy'' = Some a"
    using assms(3,4,5) s1(4) by simp_all
  have aps: "\<forall>t \<in> set ts. approaching t" using assms(6) by simp
  have sums: "\<forall>k. 1 \<le> k \<and> k \<le> length ts \<longrightarrow>
      foldl fadd (reactionTimer s1) (map tickDelta (take k ts)) < rt"
    using assms(7) s1(3) by (simp add: accumulated_def)
  obtain s2 where s2: "runTicks fadd ts s1 = Inr s2" "state s2 = PREPARING"
    "reactionTimer s2 = foldl fadd (reactionTimer s1) (map tickDelta ts)"
    "config s2 = config s1" "wired s2"
    using preparing_waits [OF s1(2) s1(5) c1(1,2) aps sums] by blast
  have run: "runTicks fadd (t0 # ts) s = Inr s2" by (simp add: s1(1) s2(1) andThen_def)
  have timer: "reactionTimer s2 = accumulated fadd ts"
    using s2(3) s1(3) by (simp add: accumulated_def)
  have next_timer: "fadd (reactionTimer s2) (tickDelta t1) = accumulated fadd (ts @ [t1])"
    using timer by (simp add: accumulated_def)
  have c2: "config s2 ''reactionTime'' = Some rt" "config s2 ''recoverySpeed'' = Some rs"
    "config s2 ''accuracy'' = Some a"
    using c1 s2(4) by simp_all
  have step: "runTicks fadd (t0 # ts @ [t1]) s
      = update fadd (tickRandom t1) (tickDelta t1) (s2\<lparr>ball := Some (tickBall t1)\<rparr>)"
  proof -
    have "runTicks fadd ((t0 # ts) @ [t1]) s
        = andThen (runTicks fadd (t0 # ts) s) (runTicks fadd [t1])"
      by (rule runTicks_append)
    also have "\<dots> = runTicks fadd [t1] s2" unfolding run by (simp add: andThen_def)
    also have "\<dots> = update fadd (tickRandom t1) (tickDelta t1) (s2\<lparr>ball := Some (tickBall t1)\<rparr>)"
      by (simp add: andThen_def split: sum.splits)
    finally show ?thesis by simp
  qed
  show ?thesis
  proof (cases "accumulated fadd (ts @ [t1]) < rt")
    case True
    then have lt: "fadd (reactionTimer s2) (tickDelta t1) < rt" using next_timer by simp
    from update_preparing_wait [where fadd = fadd, OF s2(2) s2(5) ap1 c2(1,2) lt]
    obtain s3 pp pq where s3:
      "update fadd (tickRandom t1) (tickDelta t1) (s2\<lparr>ball := Some (tickBall t1)\<rparr>) = Inr s3"
      "state s3 = PREPARING" "reactionTimer s3 = fadd (reactionTimer s2) (tickDelta t1)"
      "paddle s2 = Some pp" "paddle s3 = Some pq" "vy pq = vy pp" "vz pq = vz pp"
      "vx pq = (if \<bar>vx (basePosition s2) - vx pp\<bar> < 0.1 then vx (basePosition s2)
                else vx pp + sgn (vx (basePosition s2) - vx pp) * (rs * 3 * tickDelta t1))"
      by blast
    have "runTicks fadd (t0 # ts @ [t1]) s = Inr s3" using step s3(1) by simp
    moreover have "reactionTimer s3 = accumulated fadd (ts @ [t1])"
      using s3(3) next_timer by simp
    ultimately show ?thesis
      using run s2(2) timer True s3(2,4,5,6,7,8) by auto
  next
    case False
    then have ge: "\<not> fadd (reactionTimer s2) (tickDelta t1) < rt" using next_timer by simp
    from update_preparing_fire [where fadd = fadd, OF s2(2) s2(5) ap1 c2(1,3) ge]
    obtain s3 where s3:
      "update fadd (tickRandom t1) (tickDelta t1) (s2\<lparr>ball := Some (tickBall t1)\<rparr>) = Inr s3"
      "state s3 = TRACKING" "reactionTimer s3 = fadd (reactionTimer s2) (tickDelta t1)"
      "paddle s3 = paddle s2"
      by blast
    obtain pp where pp: "paddle s2 = Some pp" using s2(5) by (auto simp add: wired_def)
    have "runTicks fadd (t0 # ts @ [t1]) s = Inr s3" using step s3(1) by simp
    moreover have "reactionTimer s3 = accumulated fadd (ts @ [t1])"
      using s3(3) next_timer by simp
    ultimately show ?thesis
      using run s2(2) timer False s3(2,4) pp by auto
  qed
qed

text \<open>C5 with the medium preset (reaction time \<open>0.5\<close>) and frames of \<open>0.125\<close>, the
  ball approaching from the frame at time 0. Every sum of frame times that occurs is a
  multiple of \<open>1/8\<close> below 1, which double precision adds without rounding, so the
  addition of the timers is the exact one here. After the frames at times 0 to \<open>0.375\<close>
  the AI is in PREPARING with timer \<open>0.375\<close>, and so it is at time \<open>0.4\<close>; the frame
  at time \<open>0.5\<close> takes it to TRACKING, where it is at time \<open>0.6\<close>. With the easy
  preset (reaction time \<open>0.8\<close>, recovery speed \<open>0.5\<close>) and the paddle one unit
  beside its base position, the first frame in PREPARING moves the paddle towards the base
  by \<open>0.5 * 3 * 0.125 = 0.1875\<close>, to \<open>x = 0.8125\<close>; these products and sums
  are exact in double precision as well.\<close>

theorem reaction_time_gates_tracking_witness:
  "(\<exists>p q. runTicks (+) [tick_of 0.125, tick_of 0.125, tick_of 0.125, tick_of 0.125] medium_ai
             = Inr p
        \<and> state p = PREPARING \<and> reactionTimer p = 0.375
        \<and> runTicks (+) [tick_of 0.125, tick_of 0.125, tick_of 0.125, tick_of 0.125,
                         tick_of 0.125] medium_ai = Inr q
        \<and> state q = TRACKING \<and> reactionTimer q = 0.5 \<and> paddle q = paddle p)
   \<and> (\<exists>p q. runTicks (+) [tick_of 0.125] displaced_ai = Inr p
        \<and> state p = PREPARING \<and> paddle p = Some (Vector3 1 0.3 3)
        \<and> runTicks (+) [tick_of 0.125, tick_of 0.125] displaced_ai = Inr q
        \<and> state q = PREPARING \<and> reactionTimer q = 0.125
        \<and> paddle q = Some (Vector3 0.8125 0.3 3))"
proof -
  define t where "t = tick_of 0.125"
  have dt: "tickDelta t = 1 / 8" by (simp add: t_def tick_of_def)
  have apt: "approaching t" by (simp add: t_def approaching_def tick_of_def isBallApproaching_def)
  have h: "state medium_ai = IDLE" "wired medium_ai"
    "config medium_ai ''reactionTime'' = Some 0.5" "config medium_ai ''recoverySpeed'' = Some 0.7"
    "config medium_ai ''accuracy'' = Some 0.7"
    by (simp_all add: medium_ai_def newAI_def wired_def AI_CONFIG_def spread_def MEDIUM_CONFIG_def Let_def)
  have hd: "state displaced_ai = IDLE" "wired displaced_ai"
    "config displaced_ai ''reactionTime'' = Some 0.8"
    "config displaced_ai ''recoverySpeed'' = Some 0.5"
    "config displaced_ai ''accuracy'' = Some 0.5"
    by (simp_all add: displaced_ai_def newAI_def wired_def AI_CONFIG_def spread_def
        EASY_CONFIG_def Let_def)
  have a3: "\<forall>u \<in> set (t # [t, t, t] @ [t]). approaching u" using apt by simp
  have a0: "\<forall>u \<in> set (t # [] @ [t]). approaching u" using apt by simp
  have k3: "\<forall>k. 1 \<le> k \<and> k \<le> length [t, t, t] \<longrightarrow> accumulated (+) (take k [t, t, t]) < 0.5"
  proof (intro allI impI)
    fix k :: nat assume "1 \<le> k \<and> k \<le> length [t, t, t]"
    then have "k = 1 \<or> k = 2 \<or> k = 3" by auto
    then show "accumulated (+) (take k [t, t, t]) < 0.5"
      by (auto simp add: accumulated_def dt numeral_3_eq_3 numeral_2_eq_2)
  qed
  have k0: "\<forall>k. 1 \<le> k \<and> k \<le> length ([] :: tick list) \<longrightarrow>
      accumulated (+) (take k ([] :: tick list)) < 0.8"
    by simp
  have acc: "accumulated (+) [t, t, t] = 0.375" "accumulated (+) ([t, t, t] @ [t]) = 0.5"
    "accumulated (+) ([] @ [t]) = 0.125"
    by (simp_all add: accumulated_def dt)
  from reaction_time_gates_tracking [OF h a3 k3]
  obtain p q pp pq where m:
    "runTicks (+) (t # [t, t, t]) medium_ai = Inr p" "state p = PREPARING"
    "reactionTimer p = accumulated (+) [t, t, t]"
    "runTicks (+) (t # [t, t, t] @ [t]) medium_ai = Inr q"
    "reactionTimer q = accumulated (+) ([t, t, t] @ [t])"
    "paddle p = Some pp" "paddle q = Some pq"
    "state q = TRACKING \<and> pq = pp"
    unfolding acc by auto
  have first: "\<exists>p q. runTicks (+) [t, t, t, t] medium_ai = Inr p
        \<and> state p = PREPARING \<and> reactionTimer p = 0.375
        \<and> runTicks (+) [t, t, t, t, t] medium_ai = Inr q
        \<and> state q = TRACKING \<and> reactionTimer q = 0.5 \<and> paddle q = paddle p"
    using m unfolding acc by (intro exI [of _ p] exI [of _ q]) simp
  define d1 where "d1 = (changeState PREPARING
      (displaced_ai\<lparr>ball := Some (tickBall t), stateTime := 1 / 8,
                     lastKnownBallPosition := Vector3 0 0.5 (- 3)\<rparr>))\<lparr>reactionTimer := 0,
         decisionTimer := 1 / 8\<rparr>"
  have run1: "runTicks (+) [t] displaced_ai = Inr d1"
    by (simp add: d1_def t_def tick_of_def update_def executeIdleState_def
        isBallApproaching_def changeState_def andThen_def Let_def displaced_ai_def
        newAI_def)
  have d1p: "paddle d1 = Some (Vector3 1 0.3 3)" "basePosition d1 = Vector3 0 0.3 3"
    by (simp_all add: d1_def changeState_def displaced_ai_def newAI_def Let_def)
  from reaction_time_gates_tracking [OF hd a0 k0]
  obtain p' q' pp' pq' where d:
    "runTicks (+) (t # []) displaced_ai = Inr p'" "state p' = PREPARING"
    "runTicks (+) (t # [] @ [t]) displaced_ai = Inr q'"
    "reactionTimer q' = accumulated (+) ([] @ [t])"
    "paddle p' = Some pp'" "paddle q' = Some pq'"
    "state q' = PREPARING \<and> vy pq' = vy pp' \<and> vz pq' = vz pp'
       \<and> vx pq' = (if \<bar>vx (basePosition p') - vx pp'\<bar> < 0.1 then vx (basePosition p')
                   else vx pp' + sgn (vx (basePosition p') - vx pp') * (0.5 * 3 * tickDelta t))"
    unfolding acc by auto
  have p': "p' = d1" using d(1) run1 by simp
  have pp': "pp' = Vector3 1 0.3 3" using d(5) d1p(1) p' by simp
  have "pq' = Vector3 0.8125 0.3 3"
    using d(7) by (cases pq') (simp add: pp' p' d1p dt)
  then have second: "\<exists>p q. runTicks (+) [t] displaced_ai = Inr p
        \<and> state p = PREPARING \<and> paddle p = Some (Vector3 1 0.3 3)
        \<and> runTicks (+) [t, t] displaced_ai = Inr q
        \<and> state q = PREPARING \<and> reactionTimer q = 0.125
        \<and> paddle q = Some (Vector3 0.8125 0.3 3)"
    using d unfolding acc pp' by (intro exI [of _ p'] exI [of _ q']) simp
  from first second show ?thesis unfolding t_def by blast
qed


section \<open>Adaptive difficulty\<close>

lemma forEachProperty_result:
  assumes "distinct ps" "\<forall>p \<in> set ps. c p \<noteq> None"
  shows "\<exists>c'. forEachProperty e r ps c = Inr c'
     \<and> (\<forall>p. c' p = (if p \<in> set ps then map_option (adjusted e r p) (c p) else c p))"
  using assms
proof (induction ps arbitrary: c)
  case Nil
  then show ?case by simp
next
  case (Cons q ps)
  obtain v where v: "c q = Some v" using Cons.prems(2) by auto
  let ?c1 = "c(q \<mapsto> adjusted e r q v)"
  have d: "distinct ps" and nq: "q \<notin> set ps" using Cons.prems(1) by simp_all
  have "\<forall>p \<in> set ps. ?c1 p \<noteq> None" using Cons.prems(2) by simp
  from Cons.IH [OF d this] obtain c' where c': "forEachProperty e r ps ?c1 = Inr c'"
    "\<forall>p. c' p = (if p \<in> set ps then map_option (adjusted e r p) (?c1 p) else ?c1 p)"
    by blast
  have "forEachProperty e r (q # ps) c = Inr c'" by (simp add: v c'(1))
  moreover have "\<forall>p. c' p = (if p \<in> set (q # ps) then map_option (adjusted e r p) (c p) else c p)"
    using c'(2) nq v by auto
  ultimately show ?case by blast
qed

lemma distinct_properties: "distinct properties"
  by (simp add: properties_def)

lemma adjusted_bounds:
  assumes "0 \<le> r" "0.1 \<le> v" "v \<le> 1"
  shows "0.1 \<le> adjusted e r p v \<and> adjusted e r p v \<le> 1"
  using assms unfolding adjusted_def min_def max_def by (simp split: if_splits)

lemma rate_not_property: "''adaptationRate'' \<notin> set properties"
  by (simp add: properties_def)

lemma inBounds_iff:
  "inBounds c \<longleftrightarrow> (\<forall>p \<in> set properties. \<exists>v. c p = Some v \<and> 0.1 \<le> v \<and> v \<le> 1)"
  by (auto simp add: inBounds_def list_all_iff split: option.splits)

lemma adjustDifficulty_keeps:
  assumes "difficulty s = ''adaptive''" "inBounds (adaptiveConfig s)" "rateOk (config s)"
    "rateOk (adaptiveConfig s)"
  shows "\<exists>s'. adjustDifficulty e s = Inr s' \<and> difficulty s' = ''adaptive''
     \<and> inBounds (adaptiveConfig s') \<and> rateOk (config s') \<and> rateOk (adaptiveConfig s')
     \<and> config s' = adaptiveConfig s'"
proof -
  obtain r where r: "config s ''adaptationRate'' = Some r" "0 \<le> r"
    using assms(3) by (auto simp add: rateOk_def split: option.splits)
  have def: "\<forall>p \<in> set properties. adaptiveConfig s p \<noteq> None"
    using assms(2) by (auto simp add: inBounds_iff)
  obtain c' where c': "forEachProperty e r properties (adaptiveConfig s) = Inr c'"
    "\<forall>p. c' p = (if p \<in> set properties then map_option (adjusted e r p) (adaptiveConfig s p)
                  else adaptiveConfig s p)"
    using forEachProperty_result [OF distinct_properties def] by blast
  have b: "inBounds c'"
    unfolding inBounds_iff
  proof
    fix p assume p: "p \<in> set properties"
    then obtain v where v: "adaptiveConfig s p = Some v" "0.1 \<le> v" "v \<le> 1"
      using assms(2) by (auto simp add: inBounds_iff)
    then show "\<exists>v. c' p = Some v \<and> 0.1 \<le> v \<and> v \<le> 1"
      using c'(2) p adjusted_bounds [OF r(2) v(2,3)] by simp
  qed
  have rk: "rateOk c'"
    using assms(4) c'(2) rate_not_property by (simp add: rateOk_def)
  show ?thesis
    using assms(1) r(1) c'(1) b rk by (simp add: adjustDifficulty_def andThen_def)
qed

lemma scored_keeps:
  assumes "difficulty s = ''adaptive''" "inBounds (adaptiveConfig s)" "rateOk (config s)"
    "rateOk (adaptiveConfig s)"
  shows "\<exists>s'. onPlayerScored s = Inr s' \<and> difficulty s' = ''adaptive''
     \<and> inBounds (adaptiveConfig s') \<and> rateOk (config s') \<and> rateOk (adaptiveConfig s')"
    and "\<exists>s'. onAIScored s = Inr s' \<and> difficulty s' = ''adaptive''
     \<and> inBounds (adaptiveConfig s') \<and> rateOk (config s') \<and> rateOk (adaptiveConfig s')"
proof -
  let ?s1 = "s\<lparr>consecutivePointsLost := consecutivePointsLost s + 1, consecutivePointsWon := 0\<rparr>"
  have "\<exists>s'. adjustDifficulty True ?s1 = Inr s' \<and> difficulty s' = ''adaptive''
     \<and> inBounds (adaptiveConfig s') \<and> rateOk (config s') \<and> rateOk (adaptiveConfig s')
     \<and> config s' = adaptiveConfig s'"
    using assms by (intro adjustDifficulty_keeps) simp_all
  then show "\<exists>s'. onPlayerScored s = Inr s' \<and> difficulty s' = ''adaptive''
     \<and> inBounds (adaptiveConfig s') \<and> rateOk (config s') \<and> rateOk (adaptiveConfig s')"
    using assms(1) by (auto simp add: onPlayerScored_def Let_def andThen_def changeState_def)
  let ?s2 = "s\<lparr>consecutivePointsWon := consecutivePointsWon s + 1, consecutivePointsLost := 0\<rparr>"
  have "\<exists>s'. adjustDifficulty False ?s2 = Inr s' \<and> difficulty s' = ''adaptive''
     \<and> inBounds (adaptiveConfig s') \<and> rateOk (config s') \<and> rateOk (adaptiveConfig s')
     \<and> config s' = adaptiveConfig s'"
    using assms by (intro adjustDifficulty_keeps) simp_all
  then show "\<exists>s'. onAIScored s = Inr s' \<and> difficulty s' = ''adaptive''
     \<and> inBounds (adaptiveConfig s') \<and> rateOk (config s') \<and> rateOk (adaptiveConfig s')"
    using assms(1) by (auto simp add: onAIScored_def Let_def andThen_def changeState_def)
qed

text \<open>
  C6. In adaptive mode, with every tuned property of the adaptive configuration in
  \<open>[0.1, 1]\<close> at the start (and the adaptation rate present and not negative, as in the
  adaptive preset), any sequence of points won and lost runs to the end and leaves every
  tuned property in \<open>[0.1, 1]\<close>.
\<close>

theorem adaptive_parameters_stay_in_bounds:
  assumes "difficulty s = ''adaptive''" "inBounds (adaptiveConfig s)" "rateOk (config s)"
    "rateOk (adaptiveConfig s)"
  shows "\<exists>s'. afterPoints ps s = Inr s' \<and> inBounds (adaptiveConfig s')"
proof -
  have "\<exists>s'. afterPoints ps s = Inr s' \<and> difficulty s' = ''adaptive''
     \<and> inBounds (adaptiveConfig s') \<and> rateOk (config s') \<and> rateOk (adaptiveConfig s')"
    using assms
  proof (induction ps arbitrary: s)
    case Nil
    then show ?case by simp
  next
    case (Cons p ps)
    show ?case
    proof (cases p)
      case PlayerPoint
      obtain s1 where s1: "onPlayerScored s = Inr s1" "difficulty s1 = ''adaptive''"
        "inBounds (adaptiveConfig s1)" "rateOk (config s1)" "rateOk (adaptiveConfig s1)"
        using scored_keeps(1) [OF Cons.prems] by blast
      from Cons.IH [OF s1(2-5)] show ?thesis by (simp add: PlayerPoint s1(1) andThen_def)
    next
      case AIPoint
      obtain s1 where s1: "onAIScored s = Inr s1" "difficulty s1 = ''adaptive''"
        "inBounds (adaptiveConfig s1)" "rateOk (config s1)" "rateOk (adaptiveConfig s1)"
        using scored_keeps(2) [OF Cons.prems] by blast
      from Cons.IH [OF s1(2-5)] show ?thesis by (simp add: AIPoint s1(1) andThen_def)
    qed
  qed
  then show ?thesis by blast
qed

lemma adaptive_ai_ok:
  "difficulty adaptive_ai = ''adaptive''" "inBounds (adaptiveConfig adaptive_ai)"
  "rateOk (config adaptive_ai)" "rateOk (adaptiveConfig adaptive_ai)"
  by (simp_all add: adaptive_ai_def newAI_def AI_CONFIG_def spread_def ADAPTIVE_CONFIG_def
      inBounds_def rateOk_def properties_def Let_def)

text \<open>C6 for an AI built in adaptive mode, after six points lost and one won.\<close>

theorem adaptive_parameters_stay_in_bounds_witness:
  "inBounds (adaptiveConfig adaptive_ai) \<and>
   (\<exists>s'. afterPoints [PlayerPoint, PlayerPoint, PlayerPoint, PlayerPoint, PlayerPoint, PlayerPoint, AIPoint] adaptive_ai = Inr s'
      \<and> inBounds (adaptiveConfig s'))"
  using adaptive_parameters_stay_in_bounds [OF adaptive_ai_ok] adaptive_ai_ok(2) by blast

text \<open>
  C7. In adaptive mode with adaptation rate \<open>r\<close>: when the player scores, the reaction
  time and the error rate become \<open>min 1 (v + r)\<close> and every other tuned property becomes
  \<open>max 0.1 (v - r)\<close>; when the AI scores it is the other way round. Properties that are
  not tuned keep their value, and the adjusted configuration is the active one.
\<close>

theorem adaptive_adjustment_directions:
  assumes "difficulty s = ''adaptive''" "config s ''adaptationRate'' = Some r"
    "\<forall>p \<in> set properties. adaptiveConfig s p \<noteq> None"
  shows "(\<exists>s'. onPlayerScored s = Inr s' \<and> config s' = adaptiveConfig s'
            \<and> (\<forall>p v. adaptiveConfig s p = Some v \<longrightarrow>
                  adaptiveConfig s' p =
                    Some (if p = ''reactionTime'' \<or> p = ''errorRate'' then min 1 (v + r)
                          else if p \<in> set properties then max 0.1 (v - r) else v)))
       \<and> (\<exists>s'. onAIScored s = Inr s' \<and> config s' = adaptiveConfig s'
            \<and> (\<forall>p v. adaptiveConfig s p = Some v \<longrightarrow>
                  adaptiveConfig s' p =
                    Some (if p = ''reactionTime'' \<or> p = ''errorRate'' then max 0.1 (v - r)
                          else if p \<in> set properties then min 1 (v + r) else v)))"
proof -
  have step: "\<exists>c'. forEachProperty e r properties (adaptiveConfig s) = Inr c'
     \<and> (\<forall>p v. adaptiveConfig s p = Some v \<longrightarrow>
           c' p = Some (if p \<in> set properties then adjusted e r p v else v))" for e
  proof -
    obtain c' where c': "forEachProperty e r properties (adaptiveConfig s) = Inr c'"
      "\<forall>p. c' p = (if p \<in> set properties then map_option (adjusted e r p) (adaptiveConfig s p)
                    else adaptiveConfig s p)"
      using forEachProperty_result [OF distinct_properties assms(3)] by blast
    then show ?thesis by auto
  qed
  have inp: "''reactionTime'' \<in> set properties" "''errorRate'' \<in> set properties"
    by (simp_all add: properties_def)
  obtain c1 where c1: "forEachProperty True r properties (adaptiveConfig s) = Inr c1"
    "\<forall>p v. adaptiveConfig s p = Some v \<longrightarrow>
           c1 p = Some (if p \<in> set properties then adjusted True r p v else v)"
    using step [of True] by blast
  obtain c2 where c2: "forEachProperty False r properties (adaptiveConfig s) = Inr c2"
    "\<forall>p v. adaptiveConfig s p = Some v \<longrightarrow>
           c2 p = Some (if p \<in> set properties then adjusted False r p v else v)"
    using step [of False] by blast
  have "onPlayerScored s = Inr (changeState FRUSTRATED
          (s\<lparr>consecutivePointsLost := consecutivePointsLost s + 1, consecutivePointsWon := 0,
             adaptiveConfig := c1, config := c1\<rparr>))"
    using assms(1,2) c1(1)
    by (simp add: onPlayerScored_def adjustDifficulty_def andThen_def Let_def)
  moreover have "onAIScored s = Inr (changeState CELEBRATING
          (s\<lparr>consecutivePointsWon := consecutivePointsWon s + 1, consecutivePointsLost := 0,
             adaptiveConfig := c2, config := c2\<rparr>))"
    using assms(1,2) c2(1)
    by (simp add: onAIScored_def adjustDifficulty_def andThen_def Let_def)
  ultimately show ?thesis
    using c1(2) c2(2) inp by (auto simp add: changeState_def adjusted_def)
qed

lemma adaptive_ai_all_defined:
  "\<forall>p \<in> set properties. adaptiveConfig adaptive_ai p \<noteq> None"
  using adaptive_ai_ok(2) by (auto simp add: inBounds_iff)

lemma adaptive_ai_values:
  "config adaptive_ai ''adaptationRate'' = Some 0.1"
  "adaptiveConfig adaptive_ai ''reactionTime'' = Some 0.5"
  "adaptiveConfig adaptive_ai ''errorRate'' = Some 0.2"
  "adaptiveConfig adaptive_ai ''accuracy'' = Some 0.7"
  "adaptiveConfig adaptive_ai ''adaptationRate'' = Some 0.1"
  by (simp_all add: adaptive_ai_def newAI_def AI_CONFIG_def spread_def ADAPTIVE_CONFIG_def
      Let_def)

text \<open>C7 for an AI built in adaptive mode: a lost point takes reaction time, error rate
  and accuracy from \<open>0.5, 0.2, 0.7\<close> to \<open>0.6, 0.3, 0.6\<close>, a won point to
  \<open>0.4, 0.1, 0.8\<close>; the adaptation rate stays \<open>0.1\<close>.\<close>

theorem adaptive_adjustment_directions_witness:
  "(\<exists>s'. onPlayerScored adaptive_ai = Inr s'
       \<and> adaptiveConfig s' ''reactionTime'' = Some 0.6
       \<and> adaptiveConfig s' ''errorRate'' = Some 0.3
       \<and> adaptiveConfig s' ''accuracy'' = Some 0.6
       \<and> adaptiveConfig s' ''adaptationRate'' = Some 0.1)
   \<and> (\<exists>s'. onAIScored adaptive_ai = Inr s'
       \<and> adaptiveConfig s' ''reactionTime'' = Some 0.4
       \<and> adaptiveConfig s' ''errorRate'' = Some 0.1
       \<and> adaptiveConfig s' ''accuracy'' = Some 0.8
       \<and> adaptiveConfig s' ''adaptationRate'' = Some 0.1)"
proof -
  note t = adaptive_adjustment_directions [OF adaptive_ai_ok(1) adaptive_ai_values(1) adaptive_ai_all_defined]
  from t obtain s1 where s1: "onPlayerScored adaptive_ai = Inr s1"
    "\<forall>p v. adaptiveConfig adaptive_ai p = Some v \<longrightarrow>
                  adaptiveConfig s1 p =
                    Some (if p = ''reactionTime'' \<or> p = ''errorRate'' then min 1 (v + 0.1)
                          else if p \<in> set properties then max 0.1 (v - 0.1) else v)"
    by blast
  from t obtain s2 where s2: "onAIScored adaptive_ai = Inr s2"
    "\<forall>p v. adaptiveConfig adaptive_ai p = Some v \<longrightarrow>
                  adaptiveConfig s2 p =
                    Some (if p = ''reactionTime'' \<or> p = ''errorRate'' then max 0.1 (v - 0.1)
                          else if p \<in> set properties then min 1 (v + 0.1) else v)"
    by blast
  have "adaptiveConfig s1 ''reactionTime'' = Some 0.6" "adaptiveConfig s1 ''errorRate'' = Some 0.3"
    "adaptiveConfig s1 ''accuracy'' = Some 0.6" "adaptiveConfig s1 ''adaptationRate'' = Some 0.1"
    using s1(2) [rule_format, OF adaptive_ai_values(2)] s1(2) [rule_format, OF adaptive_ai_values(3)]
      s1(2) [rule_format, OF adaptive_ai_values(4)] s1(2) [rule_format, OF adaptive_ai_values(5)]
    by (simp_all add: properties_def)
  moreover have "adaptiveConfig s2 ''reactionTime'' = Some 0.4" "adaptiveConfig s2 ''errorRate'' = Some 0.1"
    "adaptiveConfig s2 ''accuracy'' = Some 0.8" "adaptiveConfig s2 ''adaptationRate'' = Some 0.1"
    using s2(2) [rule_format, OF adaptive_ai_values(2)] s2(2) [rule_format, OF adaptive_ai_values(3)]
      s2(2) [rule_format, OF adaptive_ai_values(4)] s2(2) [rule_format, OF adaptive_ai_values(5)]
    by (simp_all add: properties_def)
  ultimately show ?thesis using s1(1) s2(1) by simp
qed


section \<open>The anticipation point\<close>

text \<open>
  C9. With a paddle attached, when the ball's \<open>z\<close> velocity is below \<open>0.001\<close> in
  magnitude, or the time to reach the paddle plane is not positive,
  \<^verbatim>\<open>calculateAnticipationPoint\<close> returns the AI exactly as it was: the anticipation point
  and every other field.
\<close>

theorem anticipation_point_kept_when_skipped:
  assumes "paddle s = Some p"
    and "\<bar>vz ballVel\<bar> < 0.001 \<or> (vz p - 0.5 - vz ballPos) / vz ballVel \<le> 0"
  shows "calculateAnticipationPoint rnd ballPos ballVel s = Inr s"
  using assms by (auto simp add: calculateAnticipationPoint_def Let_def)

text \<open>C9 for a ball that drifts in \<open>z\<close> (velocity \<open>0.0005\<close>), and for one that is
  already behind the paddle plane.\<close>

theorem anticipation_point_kept_when_skipped_witness:
  "calculateAnticipationPoint rnd_half (Vector3 1 0.5 0) (Vector3 2 1 0.0005) medium_ai
     = Inr medium_ai
   \<and> calculateAnticipationPoint rnd_half (Vector3 1 0.5 3) (Vector3 2 1 3) medium_ai
     = Inr medium_ai"
proof -
  have p: "paddle medium_ai = Some (Vector3 0 0.3 3)"
    by (simp add: medium_ai_def newAI_def Let_def)
  have h1: "\<bar>vz (Vector3 2 1 0.0005)\<bar> < 0.001
      \<or> (vz (Vector3 0 0.3 3) - 0.5 - vz (Vector3 1 0.5 0)) / vz (Vector3 2 1 0.0005) \<le> 0"
    by simp
  have h2: "\<bar>vz (Vector3 2 1 3)\<bar> < 0.001
      \<or> (vz (Vector3 0 0.3 3) - 0.5 - vz (Vector3 1 0.5 3)) / vz (Vector3 2 1 3) \<le> 0"
    by simp
  from anticipation_point_kept_when_skipped [OF p h1]
    anticipation_point_kept_when_skipped [OF p h2]
  show ?thesis by simp
qed


text \<open>Nothing else in \<^verbatim>\<open>update\<close> writes the anticipation point, so a frame in which the
  computation is skipped ends with the point it started with.\<close>

lemma base_keeps:
  "moveTowardsBasePosition dt s = Inr r \<Longrightarrow> anticipationPoint (snd r) = anticipationPoint s"
  by (auto simp add: moveTowardsBasePosition_def Let_def split: option.splits if_splits)

lemma towards_keeps:
  "moveTowardsAnticipationPoint dt s = Inr s' \<Longrightarrow> anticipationPoint s' = anticipationPoint s"
  by (auto simp add: moveTowardsAnticipationPoint_def Let_def split: option.splits if_splits)

lemma return_keeps:
  "returnBall rnd s = Inr s' \<Longrightarrow> anticipationPoint s' = anticipationPoint s"
  by (auto simp add: returnBall_def Let_def split: option.splits if_splits)

lemma decisions_keep: "anticipationPoint (makeDecisions s) = anticipationPoint s"
  by (simp add: makeDecisions_def Let_def)

lemma idle_keeps:
  "executeIdleState dt bp bv s = Inr s' \<Longrightarrow> anticipationPoint s' = anticipationPoint s"
  by (auto simp add: executeIdleState_def changeState_def andThen_def dest: base_keeps
      split: if_splits sum.splits)

lemma moving_keeps:
  "executeMovingState dt s = Inr s' \<Longrightarrow> anticipationPoint s' = anticipationPoint s"
  by (auto simp add: executeMovingState_def changeState_def andThen_def dest: base_keeps
      split: if_splits sum.splits)

lemma returning_keeps:
  "executeReturningState rnd s = Inr s' \<Longrightarrow> anticipationPoint s' = anticipationPoint s"
  by (auto simp add: executeReturningState_def changeState_def andThen_def dest: return_keeps
      split: if_splits sum.splits)

lemma calculateAnticipationPoint_skipped:
  assumes "paddle s = Some p" "\<bar>vz v\<bar> < 0.001 \<or> (vz p - 0.5 - vz bp) / vz v \<le> 0"
  shows "calculateAnticipationPoint rnd bp v s = Inr s"
  using assms by (auto simp add: calculateAnticipationPoint_def Let_def)

lemma preparing_keeps:
  assumes "executePreparingState fadd rnd dt bp v s = Inr s'" "paddle s = Some p"
    "\<bar>vz v\<bar> < 0.001 \<or> (vz p - 0.5 - vz bp) / vz v \<le> 0"
  shows "anticipationPoint s' = anticipationPoint s"
proof -
  have "calculateAnticipationPoint rnd bp v
           (changeState TRACKING (s\<lparr>reactionTimer := fadd (reactionTimer s) dt\<rparr>))
     = Inr (changeState TRACKING (s\<lparr>reactionTimer := fadd (reactionTimer s) dt\<rparr>))"
    using assms(2,3) by (intro calculateAnticipationPoint_skipped [where p = p]) (simp_all add: changeState_def)
  then show ?thesis
    using assms(1)
    by (auto simp add: executePreparingState_def Let_def changeState_def andThen_def
        dest: base_keeps split: if_splits sum.splits)
qed

lemma tracking_keeps:
  assumes "executeTrackingState rnd dt bp v s = Inr s'" "paddle s = Some p"
    "\<bar>vz v\<bar> < 0.001 \<or> (vz p - 0.5 - vz bp) / vz v \<le> 0"
  shows "anticipationPoint s' = anticipationPoint s"
proof -
  have "calculateAnticipationPoint rnd bp v s = Inr s"
    using assms(2,3) by (rule calculateAnticipationPoint_skipped)
  then show ?thesis
    using assms(1)
    by (auto simp add: executeTrackingState_def changeState_def andThen_def
        isReadyToReturnBall_def Let_def
        dest!: towards_keeps split: if_splits sum.splits option.splits)
qed

lemma update_keeps_anticipation:
  assumes "update fadd rnd dt s = Inr s'" "skipped s"
  shows "anticipationPoint s' = anticipationPoint s"
proof (cases "paddle s = None \<or> ball s = None \<or> gameState s = None")
  case True
  then show ?thesis using assms(1) by (auto simp add: update_def split: option.splits)
next
  case False
  then obtain p b u where w: "paddle s = Some p" "ball s = Some b" "gameState s = Some u"
    by auto
  define v where "v = (case bVelocity b of Some v \<Rightarrow> v | None \<Rightarrow> Vector3 0 0 0)"
  define s0 where
    "s0 = s\<lparr>stateTime := fadd (stateTime s) dt, lastKnownBallPosition := bPosition b\<rparr>"
  have sk: "\<bar>vz v\<bar> < 0.001 \<or> (vz p - 0.5 - vz (bPosition b)) / vz v \<le> 0"
    using assms(2) w by (auto simp add: skipped_def v_def split: option.splits)
  have p0: "paddle s0 = Some p" and a0: "anticipationPoint s0 = anticipationPoint s"
    by (simp_all add: s0_def w)
  define inner where "inner =
     (case state s0 of
        IDLE \<Rightarrow> executeIdleState dt (bPosition b) v s0
      | PREPARING \<Rightarrow> executePreparingState fadd rnd dt (bPosition b) v s0
      | TRACKING \<Rightarrow> executeTrackingState rnd dt (bPosition b) v s0
      | RETURNING \<Rightarrow> executeReturningState rnd s0
      | MOVING \<Rightarrow> executeMovingState dt s0
      | CELEBRATING \<Rightarrow> Inr (executeCelebratingState s0)
      | FRUSTRATED \<Rightarrow> Inr (executeFrustratedState s0))"
  define fin where "fin = (\<lambda>s1. let s2 = s1\<lparr>decisionTimer := fadd (decisionTimer s1) dt\<rparr>
                    in if decisionTimer s2 \<ge> 0.5 then (makeDecisions s2)\<lparr>decisionTimer := 0\<rparr> else s2)"
  have upd: "update fadd rnd dt s = andThen inner (\<lambda>s1. Inr (fin s1))"
    unfolding inner_def fin_def s0_def v_def using w by (simp add: update_def Let_def)
  then obtain s1 where s1: "inner = Inr s1" and s': "s' = fin s1"
    using assms(1) by (cases inner) (simp_all add: andThen_def)
  have "anticipationPoint s1 = anticipationPoint s0"
    using s1 idle_keeps preparing_keeps [OF _ p0 sk] tracking_keeps [OF _ p0 sk]
      returning_keeps moving_keeps
    unfolding inner_def
    by (cases "state s0")
      (auto simp add: executeCelebratingState_def executeFrustratedState_def changeState_def
        split: if_splits)
  moreover have "anticipationPoint (fin s1) = anticipationPoint s1"
    by (simp add: fin_def Let_def decisions_keep)
  ultimately show ?thesis
    by (simp add: s' a0)
qed


section \<open>Setting the difficulty\<close>

lemma setDifficulty_recognized:
  assumes "d \<in> set AI_DIFFICULTY"
  shows "\<exists>c. AI_CONFIG d = Preset c
     \<and> setDifficulty d s = s\<lparr>difficulty := d, config := c, adaptiveConfig := c\<rparr>"
  using assms
  by (auto simp add: AI_DIFFICULTY_def setDifficulty_def AI_CONFIG_def spread_def truthy_def Let_def)

lemma setDifficulty_unknown:
  assumes "d \<notin> set AI_DIFFICULTY" "d \<notin> set Object_prototype"
  shows "setDifficulty d s = s"
  using assms
  by (simp add: AI_DIFFICULTY_def setDifficulty_def AI_CONFIG_def truthy_def)

text \<open>
  C10 at the name \<open>constructor\<close>, which is none of the four difficulty levels. An AI
  built with the hard preset takes it as its difficulty, and its active and adaptive
  configurations become empty objects: \<^verbatim>\<open>AI_CONFIG['constructor']\<close> is the inherited
  \<^verbatim>\<open>Object\<close> function, which passes the test of \<^verbatim>\<open>setDifficulty\<close>.
\<close>

theorem setDifficulty_accepts_constructor:
  "''constructor'' \<notin> set AI_DIFFICULTY
   \<and> difficulty hard_ai = ''hard''
   \<and> config hard_ai = HARD_CONFIG
   \<and> difficulty (setDifficulty ''constructor'' hard_ai) = ''constructor''
   \<and> config (setDifficulty ''constructor'' hard_ai) = Map.empty
   \<and> adaptiveConfig (setDifficulty ''constructor'' hard_ai) = Map.empty
   \<and> HARD_CONFIG ''reactionTime'' = Some 0.2"
  by (simp add: AI_DIFFICULTY_def hard_ai_def newAI_def setDifficulty_def AI_CONFIG_def spread_def
      truthy_def Object_prototype_def HARD_CONFIG_def Let_def)

end
